theory Spec2Isabelle
  imports Complex_Main
begin

section \<open>Strings of the script\<close>

text \<open>
  JavaScript strings are modelled as \<^typ>\<open>string\<close>, a character outside ASCII being
  written as its bytes in UTF-8. The script only inspects ASCII characters (the class
  \<^verbatim>\<open>[0-9]\<close> and white space); the white space characters outside ASCII that
  \<^verbatim>\<open>\s\<close> also matches are not told apart from other characters.
\<close>

definition is_digit :: "char \<Rightarrow> bool" where
  "is_digit c \<longleftrightarrow> c \<in> set ''0123456789''"

text \<open>\<^verbatim>\<open>s.replace(/[^0-9]/g, '')\<close>\<close>

definition strip_non_digits :: "string \<Rightarrow> string" where
  "strip_non_digits s = filter is_digit s"

text \<open>\<^verbatim>\<open>s.slice(-1)\<close>: the last character, or the empty string.\<close>

definition slice_last :: "string \<Rightarrow> string" where
  "slice_last s = (if s = [] then [] else [last s])"

text \<open>\<^verbatim>\<open>s.split('').join(' ')\<close>\<close>

fun join_space :: "string \<Rightarrow> string" where
  "join_space [] = []"
| "join_space [c] = [c]"
| "join_space (c # cs) = c # CHR '' '' # join_space cs"

section \<open>The digit boxes of \<^verbatim>\<open>initOtpBoxes\<close>\<close>

text \<open>
  A box is an input element of class \<^verbatim>\<open>otp-box\<close>: its \<^verbatim>\<open>value\<close> and whether its class
  list holds \<^verbatim>\<open>filled\<close>. The handlers close over the array \<^verbatim>\<open>boxes\<close> and the index
  \<^verbatim>\<open>idx\<close> of their own box; \<^verbatim>\<open>focus()\<close> moves the document focus to a box of the
  array, recorded here as its index.
\<close>

record otp_box =
  box_value :: string
  box_filled :: bool

record otp_group =
  boxes :: "otp_box list"
  focus :: "nat option"

datatype key = Backspace | ArrowLeft | ArrowRight | Enter | OtherKey string

text \<open>
  A handler of box \<open>idx\<close> exists only for \<open>idx < length boxes\<close> (they are registered
  inside \<^verbatim>\<open>boxes.forEach\<close>); an event for any other index reaches no handler.
\<close>

definition on_input :: "nat \<Rightarrow> string \<Rightarrow> otp_group \<Rightarrow> otp_group" where
  "on_input idx val g =
     (if idx < length (boxes g) then
        let digit = slice_last (strip_non_digits val);
            bs = boxes g
        in if digit \<noteq> [] then
             g\<lparr>boxes := bs[idx := (bs ! idx)\<lparr>box_value := digit, box_filled := True\<rparr>],
               focus := (if idx < length bs - 1 then Some (idx + 1) else focus g)\<rparr>
           else
             g\<lparr>boxes := bs[idx := (bs ! idx)\<lparr>box_value := digit, box_filled := False\<rparr>]\<rparr>
      else g)"

text \<open>
  The key-down handler; the second component tells whether the Enter branch was taken
  (the look-up and click of the submit button happen outside the group).
\<close>

definition on_keydown :: "key \<Rightarrow> nat \<Rightarrow> otp_group \<Rightarrow> otp_group \<times> bool" where
  "on_keydown k idx g =
     (if idx < length (boxes g) then
        let bs = boxes g
        in case k of
             Backspace \<Rightarrow>
               (if box_value (bs ! idx) = [] \<and> idx > 0 then
                  (g\<lparr>boxes := bs[idx - 1 := (bs ! (idx - 1))\<lparr>box_value := [], box_filled := False\<rparr>],
                     focus := Some (idx - 1)\<rparr>, False)
                else
                  (g\<lparr>boxes := bs[idx := (bs ! idx)\<lparr>box_value := [], box_filled := False\<rparr>]\<rparr>, False))
           | ArrowLeft \<Rightarrow> (if idx > 0 then g\<lparr>focus := Some (idx - 1)\<rparr> else g, False)
           | ArrowRight \<Rightarrow> (if idx < length bs - 1 then g\<lparr>focus := Some (idx + 1)\<rparr> else g, False)
           | Enter \<Rightarrow> (g, idx = length bs - 1)
           | OtherKey _ \<Rightarrow> (g, False)
      else (g, False))"

text \<open>The key-press handler: whether the key reaches the value (\<^verbatim>\<open>/[0-9]/.test(e.key)\<close>).\<close>

definition on_keypress_allowed :: "string \<Rightarrow> bool" where
  "on_keypress_allowed k \<longleftrightarrow> (\<exists>c \<in> set k. is_digit c)"

text \<open>
  \<^verbatim>\<open>pasted.split('').forEach((ch, i) => { if (boxes[i]) { ... } })\<close>, started at
  index \<open>i\<close>.
\<close>

fun write_digits :: "nat \<Rightarrow> string \<Rightarrow> otp_box list \<Rightarrow> otp_box list" where
  "write_digits i [] bs = bs"
| "write_digits i (ch # chs) bs =
     write_digits (Suc i) chs
       (if i < length bs then bs[i := (bs ! i)\<lparr>box_value := [ch], box_filled := True\<rparr>] else bs)"

text \<open>\<^verbatim>\<open>boxes.find(b => b.value === '')\<close>, as the index of the box found.\<close>

fun first_empty :: "otp_box list \<Rightarrow> nat option" where
  "first_empty [] = None"
| "first_empty (b # bs) =
     (if box_value b = [] then Some 0 else map_option Suc (first_empty bs))"

definition on_paste :: "nat \<Rightarrow> string \<Rightarrow> otp_group \<Rightarrow> otp_group" where
  "on_paste idx clip g =
     (if idx < length (boxes g) then
        let pasted = take 4 (strip_non_digits clip);
            bs = write_digits 0 pasted (boxes g)
        in case first_empty bs of
             Some j \<Rightarrow> g\<lparr>boxes := bs, focus := Some j\<rparr>
           | None \<Rightarrow> g\<lparr>boxes := bs, focus := Some (length bs - 1)\<rparr>
      else g)"

text \<open>
  The click handler selects the text of its box; the selection is not part of the model.
  A key pressed by the user is delivered to the box that has the focus.
\<close>

definition press_key :: "key \<Rightarrow> otp_group \<Rightarrow> otp_group" where
  "press_key k g = (case focus g of None \<Rightarrow> g | Some i \<Rightarrow> fst (on_keydown k i g))"

section \<open>Numbers, JSON and server replies\<close>

text \<open>
  A JavaScript number as the script meets it: the result of \<^verbatim>\<open>parseInt\<close> or a count sent
  by the server. \<open>NaN\<close> is kept apart; every other value is an integer (exact in a
  double below \<open>2^53\<close>, far above anything a select or a score holds).
\<close>

datatype jsnum = NaN | Num int

definition js_add :: "jsnum \<Rightarrow> jsnum \<Rightarrow> jsnum" where
  "js_add a b = (case (a, b) of (Num x, Num y) \<Rightarrow> Num (x + y) | _ \<Rightarrow> NaN)"

text \<open>\<^verbatim>\<open>a > b\<close>, \<^verbatim>\<open>a >= b\<close> and \<^verbatim>\<open>a === b\<close>: every comparison with \<open>NaN\<close> is false.\<close>

definition js_gt :: "jsnum \<Rightarrow> jsnum \<Rightarrow> bool" where
  "js_gt a b = (case (a, b) of (Num x, Num y) \<Rightarrow> x > y | _ \<Rightarrow> False)"

definition js_ge :: "jsnum \<Rightarrow> jsnum \<Rightarrow> bool" where
  "js_ge a b = (case (a, b) of (Num x, Num y) \<Rightarrow> x \<ge> y | _ \<Rightarrow> False)"

definition js_eq :: "jsnum \<Rightarrow> jsnum \<Rightarrow> bool" where
  "js_eq a b = (case (a, b) of (Num x, Num y) \<Rightarrow> x = y | _ \<Rightarrow> False)"

text \<open>White space of \<^verbatim>\<open>/\s/\<close> and of \<^verbatim>\<open>parseInt\<close> and \<^verbatim>\<open>trim\<close>, within ASCII.\<close>

definition is_space :: "char \<Rightarrow> bool" where
  "is_space c \<longleftrightarrow> c \<in> set [CHR '' '', CHR 0x09, CHR 0x0A, CHR 0x0B, CHR 0x0C, CHR 0x0D]"

text \<open>\<^verbatim>\<open>s.replace(/\s/g, '')\<close>\<close>

definition strip_spaces :: "string \<Rightarrow> string" where
  "strip_spaces s = filter (\<lambda>c. \<not> is_space c) s"

definition digit_val :: "char \<Rightarrow> int" where
  "digit_val c = int (of_char c) - 48"

definition digits_val :: "string \<Rightarrow> int" where
  "digits_val ds = foldl (\<lambda>acc c. acc * 10 + digit_val c) 0 ds"

text \<open>
  \<^verbatim>\<open>parseInt(s, 10)\<close>: leading white space is skipped, one sign is read, then the
  longest run of digits; no digit there gives \<open>NaN\<close>.
\<close>

definition parseInt :: "string \<Rightarrow> jsnum" where
  "parseInt s =
     (let t = dropWhile is_space s;
          neg = (t \<noteq> [] \<and> hd t = CHR ''-'');
          u = (if t \<noteq> [] \<and> (hd t = CHR ''-'' \<or> hd t = CHR ''+'') then tl t else t);
          ds = takeWhile is_digit u
      in if ds = [] then NaN else Num (if neg then - digits_val ds else digits_val ds))"

text \<open>The string form of a number, as a template literal inserts it.\<close>

fun show_nat :: "nat \<Rightarrow> string" where
  "show_nat n =
     (if n < 10 then [char_of (48 + n)] else show_nat (n div 10) @ [char_of (48 + n mod 10)])"

definition show_num :: "jsnum \<Rightarrow> string" where
  "show_num v =
     (case v of NaN \<Rightarrow> ''NaN''
      | Num i \<Rightarrow> if i < 0 then CHR ''-'' # show_nat (nat (- i)) else show_nat (nat i))"

text \<open>A JSON document; \<^verbatim>\<open>JSON.stringify\<close> writes \<open>NaN\<close> as \<^verbatim>\<open>null\<close>.\<close>

datatype json = JNull | JNum int | JStr string | JObj "(string \<times> json) list"

definition json_of_num :: "jsnum \<Rightarrow> json" where
  "json_of_num v = (case v of NaN \<Rightarrow> JNull | Num i \<Rightarrow> JNum i)"

text \<open>
  What \<^verbatim>\<open>await fetch(...)\<close> followed by \<^verbatim>\<open>await res.json()\<close> gives: a rejection, caught
  by the \<^verbatim>\<open>catch\<close> block, or the decoded reply.
\<close>

datatype 'a fetched = NetworkError | Reply 'a

record human_reply =
  hr_success :: bool
  hr_error :: "string option"
  hr_bulls :: jsnum
  hr_cows :: jsnum
  hr_won :: bool
  hr_ai_secret :: "string option"

record ai_turn_reply =
  at_success :: bool
  at_error :: "string option"
  at_ai_guess :: string

record feedback_reply =
  fr_success :: bool
  fr_error :: "string option"
  fr_won :: bool
  fr_human_secret :: "string option"

text \<open>\<^verbatim>\<open>x || fallback\<close> for an optional string: absent and empty are both falsy.\<close>

definition or_else :: "string option \<Rightarrow> string \<Rightarrow> string" where
  "or_else x fallback = (case x of None \<Rightarrow> fallback | Some s \<Rightarrow> if s = [] then fallback else s)"

section \<open>The document\<close>

text \<open>
  Elements are looked up by identifier. An element carries the properties the script
  reads or writes: \<^verbatim>\<open>value\<close>, \<^verbatim>\<open>textContent\<close>, \<^verbatim>\<open>style.display\<close>,
  \<^verbatim>\<open>style.animation\<close>, \<^verbatim>\<open>disabled\<close>, \<^verbatim>\<open>innerHTML\<close>, the expando
  \<^verbatim>\<open>_originalHTML\<close>, its descendants of class \<^verbatim>\<open>otp-box\<close>, its children as a history
  list, and whether it was scrolled to its bottom. The page markup is not part of the
  script, so which identifiers resolve is left open.
\<close>

datatype hist_child =
    HistoryEmpty
  | HistoryRow (row_num: string) (row_bulls: string) (row_cows: string)

record element =
  el_value :: string
  el_text :: string
  el_display :: string
  el_animation :: string
  el_disabled :: bool
  el_innerHTML :: string
  el_originalHTML :: "string option"
  el_boxes :: "otp_box list"
  el_children :: "hist_child list"
  el_at_bottom :: bool

record dom =
  elems :: "string \<rightharpoonup> element"
  doc_focus :: "(string \<times> nat) option"

datatype error = TypeError

text \<open>Writing one element, when it is there.\<close>

definition upd :: "string \<Rightarrow> (element \<Rightarrow> element) \<Rightarrow> dom \<Rightarrow> dom" where
  "upd i f d = (case elems d i of None \<Rightarrow> d | Some e \<Rightarrow> d\<lparr>elems := (elems d)(i \<mapsto> f e)\<rparr>)"

text \<open>
  \<^verbatim>\<open>document.getElementById(i).prop = v\<close> without a guard: a \<^verbatim>\<open>TypeError\<close> when the
  identifier does not resolve. The document so far is kept, as the writes before the
  throw stay done.
\<close>

definition upd_strict :: "string \<Rightarrow> (element \<Rightarrow> element) \<Rightarrow> dom \<Rightarrow> dom \<times> error option" where
  "upd_strict i f d =
     (case elems d i of None \<Rightarrow> (d, Some TypeError)
      | Some e \<Rightarrow> (d\<lparr>elems := (elems d)(i \<mapsto> f e)\<rparr>, None))"

text \<open>Statement sequencing: what follows a throw is skipped.\<close>

definition and_then :: "dom \<times> error option \<Rightarrow> (dom \<Rightarrow> dom \<times> error option) \<Rightarrow> dom \<times> error option" where
  "and_then r f = (case r of (d, Some e) \<Rightarrow> (d, Some e) | (d, None) \<Rightarrow> f d)"

subsection \<open>Reading and clearing the digit boxes\<close>

text \<open>
  \<^verbatim>\<open>initOtpBoxes\<close> registers the handlers of section 2 on the boxes of the container;
  the result is the group they close over, or nothing when the container is absent.
\<close>

definition initOtpBoxes :: "string \<Rightarrow> dom \<Rightarrow> otp_group option" where
  "initOtpBoxes containerId d =
     (case elems d containerId of None \<Rightarrow> None
      | Some container \<Rightarrow>
          Some \<lparr>boxes = el_boxes container,
                focus = (case doc_focus d of None \<Rightarrow> None
                         | Some (c, i) \<Rightarrow> if c = containerId then Some i else None)\<rparr>)"

definition getOtpValue :: "string \<Rightarrow> dom \<Rightarrow> string" where
  "getOtpValue containerId d =
     (case elems d containerId of None \<Rightarrow> []
      | Some container \<Rightarrow> concat (map box_value (el_boxes container)))"

definition clearOtpBoxes :: "string \<Rightarrow> dom \<Rightarrow> dom" where
  "clearOtpBoxes containerId d =
     (case elems d containerId of None \<Rightarrow> d
      | Some container \<Rightarrow>
          let bs = map (\<lambda>b. b\<lparr>box_value := [], box_filled := False\<rparr>) (el_boxes container);
              d' = d\<lparr>elems := (elems d)(containerId \<mapsto> container\<lparr>el_boxes := bs\<rparr>)\<rparr>
          in if bs \<noteq> [] then d'\<lparr>doc_focus := Some (containerId, 0)\<rparr> else d')"

subsection \<open>Show and hide helpers\<close>

definition show_el :: "string \<Rightarrow> dom \<Rightarrow> dom" where
  "show_el i d = upd i (\<lambda>el. el\<lparr>el_display := []\<rparr>) d"

definition hide :: "string \<Rightarrow> dom \<Rightarrow> dom" where
  "hide i d = upd i (\<lambda>el. el\<lparr>el_display := ''none''\<rparr>) d"

definition showError :: "string \<Rightarrow> string \<Rightarrow> dom \<Rightarrow> dom" where
  "showError i msg d =
     (case elems d i of None \<Rightarrow> d
      | Some el \<Rightarrow>
          d\<lparr>elems := (elems d)(i \<mapsto>
              ((el\<lparr>el_text := msg, el_display := []\<rparr>)\<lparr>el_animation := ''none''\<rparr>)\<lparr>el_animation := []\<rparr>)\<rparr>)"

definition clearError :: "string \<Rightarrow> dom \<Rightarrow> dom" where
  "clearError i d = upd i (\<lambda>el. el\<lparr>el_display := ''none''\<rparr>) d"

subsection \<open>Button loading state\<close>

text \<open>The label ends in an ellipsis, U+2026, written here in UTF-8.\<close>

definition loading_html :: string where
  "loading_html =
     ''<span class='' @ [CHR 0x22] @ ''spinner'' @ [CHR 0x22] @ ''></span> Loading'' @
     [CHR 0xE2, CHR 0x80, CHR 0xA6]"

text \<open>
  \<^verbatim>\<open>setButtonLoading(document.getElementById(i), loading)\<close>: the button is named by
  its identifier; an absent button is \<^verbatim>\<open>null\<close> and nothing happens.
\<close>

definition setButtonLoading :: "string \<Rightarrow> bool \<Rightarrow> dom \<Rightarrow> dom" where
  "setButtonLoading i loading d =
     (case elems d i of None \<Rightarrow> d
      | Some btn \<Rightarrow>
          let b1 = btn\<lparr>el_disabled := loading\<rparr>
          in if loading then
               d\<lparr>elems := (elems d)(i \<mapsto>
                   b1\<lparr>el_originalHTML := Some (el_innerHTML b1), el_innerHTML := loading_html\<rparr>)\<rparr>
             else
               (case el_originalHTML b1 of
                  None \<Rightarrow> d\<lparr>elems := (elems d)(i \<mapsto> b1)\<rparr>
                | Some h \<Rightarrow>
                    if h \<noteq> [] then d\<lparr>elems := (elems d)(i \<mapsto> b1\<lparr>el_innerHTML := h\<rparr>)\<rparr>
                    else d\<lparr>elems := (elems d)(i \<mapsto> b1)\<rparr>))"

subsection \<open>History rows\<close>

text \<open>\<^verbatim>\<open>list.querySelector('.history-empty')\<close> and \<^verbatim>\<open>empty.remove()\<close>: the first one goes.\<close>

fun remove_first_empty :: "hist_child list \<Rightarrow> hist_child list" where
  "remove_first_empty [] = []"
| "remove_first_empty (HistoryEmpty # cs) = cs"
| "remove_first_empty (c # cs) = c # remove_first_empty cs"

text \<open>
  The new row holds the guess with its characters space-separated and the two counts
  in their string form.
\<close>

definition addHistoryRow :: "string \<Rightarrow> string \<Rightarrow> jsnum \<Rightarrow> jsnum \<Rightarrow> dom \<Rightarrow> dom" where
  "addHistoryRow listId guess bulls cows d =
     (case elems d listId of None \<Rightarrow> d
      | Some lst \<Rightarrow>
          let row = HistoryRow (join_space guess) (show_num bulls) (show_num cows)
          in d\<lparr>elems := (elems d)(listId \<mapsto>
                 lst\<lparr>el_children := remove_first_empty (el_children lst) @ [row],
                     el_at_bottom := True\<rparr>)\<rparr>)"

section \<open>Turn management\<close>

text \<open>
  What a function hands to the browser: a request, a timer with its delay in
  milliseconds, an alert. A timer callback is named by what it will run. The interval of
  \<^verbatim>\<open>displayAiGuess\<close> owns the digits and the counter \<^verbatim>\<open>i\<close> of its closure.
\<close>

datatype callback =
    CbShowWinner string "string option"
  | CbHideFlashAndAiTurn
  | CbShowHumanTurn
  | CbStopConfetti

record reveal =
  rv_digits :: string
  rv_i :: nat

datatype effect =
    Fetch string string "json option"
  | SetTimeout callback nat
  | SetInterval reveal nat
  | Alert string

definition is_fetch :: "effect \<Rightarrow> bool" where
  "is_fetch e = (case e of Fetch _ _ _ \<Rightarrow> True | _ \<Rightarrow> False)"

text \<open>The emoji of the script, in UTF-8.\<close>

definition emoji_party :: string where "emoji_party = [CHR 0xF0, CHR 0x9F, CHR 0x8E, CHR 0x89]"
definition emoji_fire :: string where "emoji_fire = [CHR 0xF0, CHR 0x9F, CHR 0x94, CHR 0xA5]"
definition emoji_target :: string where "emoji_target = [CHR 0xF0, CHR 0x9F, CHR 0x8E, CHR 0xAF]"
definition emoji_ox :: string where "emoji_ox = [CHR 0xF0, CHR 0x9F, CHR 0x90, CHR 0x82]"
definition emoji_cow :: string where "emoji_cow = [CHR 0xF0, CHR 0x9F, CHR 0x90, CHR 0x84]"
definition emoji_trophy :: string where "emoji_trophy = [CHR 0xF0, CHR 0x9F, CHR 0x8F, CHR 0x86]"
definition emoji_robot :: string where "emoji_robot = [CHR 0xF0, CHR 0x9F, CHR 0xA4, CHR 0x96]"
definition middle_dot :: string where "middle_dot = [CHR 0xC2, CHR 0xB7]"

definition showHumanTurn :: "dom \<Rightarrow> dom" where
  "showHumanTurn d =
     (let d1 = hide ''aiCard'' (hide ''resultFlash'' (show_el ''humanCard'' d))
      in case elems d1 ''guessInputs'' of
           None \<Rightarrow> d1
         | Some c \<Rightarrow> if el_boxes c \<noteq> [] then d1\<lparr>doc_focus := Some (''guessInputs'', 0)\<rparr> else d1)"

subsection \<open>Result flash\<close>

definition showResultFlash :: "string \<Rightarrow> jsnum \<Rightarrow> jsnum \<Rightarrow> dom \<Rightarrow> dom \<times> error option" where
  "showResultFlash guess bulls cows d =
     (case elems d ''resultFlash'' of None \<Rightarrow> (d, None)
      | Some _ \<Rightarrow>
          let emoji = (if js_eq bulls (Num 4) then emoji_party
                       else if js_ge bulls (Num 2) then emoji_fire else emoji_target);
              score = emoji_ox @ '' '' @ show_num bulls @ '' Bulls  '' @ middle_dot @ ''  '' @
                      emoji_cow @ '' '' @ show_num cows @ '' Cows''
          in and_then (and_then (and_then
               (upd_strict ''resultEmoji'' (\<lambda>el. el\<lparr>el_text := emoji\<rparr>) d)
               (upd_strict ''resultScore'' (\<lambda>el. el\<lparr>el_text := score\<rparr>)))
               (upd_strict ''resultSub'' (\<lambda>el. el\<lparr>el_text := ''Your guess: '' @ join_space guess\<rparr>)))
               (\<lambda>d'. (show_el ''resultFlash''
                        (upd ''resultFlash'' (\<lambda>el. (el\<lparr>el_animation := ''none''\<rparr>)\<lparr>el_animation := []\<rparr>) d'),
                      None)))"

subsection \<open>The human's guess\<close>

text \<open>
  An \<^verbatim>\<open>async\<close> function runs up to its first \<^verbatim>\<open>await\<close>, and resumes when the reply is
  there; other handlers and timers may run in between. \<open>submitHumanGuess_start\<close> is the
  part before the request (its third component holds the captured \<^verbatim>\<open>guess\<close> when the
  request was sent), \<open>submitHumanGuess_resume\<close> the part after it.
\<close>

definition submitHumanGuess_start :: "dom \<Rightarrow> dom \<times> effect list \<times> string option" where
  "submitHumanGuess_start d =
     (let guess = getOtpValue ''guessInputs'' d;
          d1 = clearError ''humanError'' d
      in if length guess \<noteq> 4 then
           (showError ''humanError'' ''Fill in all 4 digits.'' d1, [], None)
         else
           (setButtonLoading ''btnHumanSubmit'' True d1,
            [Fetch ''/human-turn'' ''POST'' (Some (JObj [(''guess'', JStr guess)]))],
            Some guess))"

definition submitHumanGuess_resume ::
  "string \<Rightarrow> human_reply fetched \<Rightarrow> dom \<Rightarrow> dom \<times> effect list" where
  "submitHumanGuess_resume guess reply d =
     (let fin = setButtonLoading ''btnHumanSubmit'' False;
          network_error = showError ''humanError'' ''Network error. Please try again.''
      in case reply of
           NetworkError \<Rightarrow> (fin (network_error d), [])
         | Reply data \<Rightarrow>
             if \<not> hr_success data then
               (fin (showError ''humanError'' (or_else (hr_error data) ''Invalid guess.'') d), [])
             else
               let d1 = addHistoryRow ''humanHistory'' guess (hr_bulls data) (hr_cows data) d;
                   d2 = hide ''humanCard'' (clearOtpBoxes ''guessInputs'' d1)
               in case showResultFlash guess (hr_bulls data) (hr_cows data) d2 of
                    (d3, Some _) \<Rightarrow> (fin (network_error d3), [])
                  | (d3, None) \<Rightarrow>
                      if hr_won data then
                        (fin d3, [SetTimeout (CbShowWinner ''human'' (hr_ai_secret data)) 2000])
                      else
                        (fin d3, [SetTimeout CbHideFlashAndAiTurn 2500]))"

text \<open>The whole call, when nothing else runs while the request is in flight.\<close>

definition submitHumanGuess :: "human_reply fetched \<Rightarrow> dom \<Rightarrow> dom \<times> effect list" where
  "submitHumanGuess reply d =
     (case submitHumanGuess_start d of
        (d1, effs, None) \<Rightarrow> (d1, effs)
      | (d1, effs, Some guess) \<Rightarrow>
          (case submitHumanGuess_resume guess reply d1 of (d2, effs2) \<Rightarrow> (d2, effs @ effs2)))"

subsection \<open>The AI's guess\<close>

text \<open>\<^verbatim>\<open>s.trim()\<close>\<close>

definition js_trim :: "string \<Rightarrow> string" where
  "js_trim s = rev (dropWhile is_space (rev (dropWhile is_space s)))"

definition displayAiGuess :: "string \<Rightarrow> dom \<Rightarrow> dom \<times> effect list" where
  "displayAiGuess guess d =
     (case elems d ''aiGuessDisplay'' of None \<Rightarrow> (d, [])
      | Some _ \<Rightarrow>
          let d1 = upd ''aiGuessDisplay'' (\<lambda>el. el\<lparr>el_text := ''_ _ _ _''\<rparr>) d;
              d2 = show_el ''aiCard'' d1;
              d3 = upd ''aiCard'' (\<lambda>el. (el\<lparr>el_animation := ''none''\<rparr>)\<lparr>el_animation := []\<rparr>) d2
          in (d3, [SetInterval \<lparr>rv_digits = guess, rv_i = 0\<rparr> 180]))"

text \<open>
  One run of the interval callback: the text shown, the counter, and the interval that
  remains (none once \<^verbatim>\<open>clearInterval\<close> was called).
\<close>

definition reveal_tick :: "reveal \<Rightarrow> dom \<Rightarrow> dom \<times> reveal option" where
  "reveal_tick rv d =
     (let i = rv_i rv;
          digits = rv_digits rv;
          shown = join_space (take (i + 1) digits) @
                  (if i < 3 then '' '' @ js_trim (concat (replicate (3 - i) ''_ '')) else []);
          d1 = upd ''aiGuessDisplay'' (\<lambda>el. el\<lparr>el_text := shown\<rparr>) d;
          i' = i + 1
      in if i' \<ge> length digits then (d1, None) else (d1, Some (rv\<lparr>rv_i := i'\<rparr>)))"

text \<open>\<open>n\<close> periods of the interval elapse: the callback runs while the interval lives.\<close>

fun reveal_ticks :: "nat \<Rightarrow> reveal option \<Rightarrow> dom \<Rightarrow> dom \<times> reveal option" where
  "reveal_ticks 0 r d = (d, r)"
| "reveal_ticks (Suc n) None d = (d, None)"
| "reveal_ticks (Suc n) (Some rv) d = (case reveal_tick rv d of (d', r') \<Rightarrow> reveal_ticks n r' d')"

text \<open>
  \<^verbatim>\<open>triggerAiTurn\<close> touches the document only after its reply is there:
  \<open>triggerAiTurn_resume\<close> is that part, \<open>triggerAiTurn\<close> the whole call with its request.
\<close>

definition triggerAiTurn_resume :: "ai_turn_reply fetched \<Rightarrow> dom \<Rightarrow> dom \<times> effect list" where
  "triggerAiTurn_resume reply d =
     (case reply of
        NetworkError \<Rightarrow> (d, [Alert ''Network error during AI turn.''])
      | Reply data \<Rightarrow>
          if \<not> at_success data then
            (d, [Alert (''AI error: '' @ or_else (at_error data) ''Unknown'')])
          else displayAiGuess (at_ai_guess data) d)"

definition triggerAiTurn :: "ai_turn_reply fetched \<Rightarrow> dom \<Rightarrow> dom \<times> effect list" where
  "triggerAiTurn reply d =
     (case triggerAiTurn_resume reply d of
        (d', effs) \<Rightarrow> (d', Fetch ''/ai-turn'' ''GET'' None # effs))"

subsection \<open>Feedback on the AI's guess\<close>

text \<open>
  The two selects are read without a guard, before the \<^verbatim>\<open>try\<close>: an absent select makes
  the call fail at once. The third component holds the parsed \<^verbatim>\<open>bulls\<close> and \<^verbatim>\<open>cows\<close>
  when the request was sent.
\<close>

definition submitAiFeedback_start ::
  "dom \<Rightarrow> error + dom \<times> effect list \<times> (jsnum \<times> jsnum) option" where
  "submitAiFeedback_start d =
     (case elems d ''aiBulls'' of None \<Rightarrow> Inl TypeError
      | Some eb \<Rightarrow>
     (case elems d ''aiCows'' of None \<Rightarrow> Inl TypeError
      | Some ec \<Rightarrow>
          let bulls = parseInt (el_value eb);
              cows = parseInt (el_value ec);
              d1 = clearError ''aiError'' d
          in if js_gt (js_add bulls cows) (Num 4) then
               Inr (showError ''aiError'' ''Bulls + Cows cannot exceed 4.'' d1, [], None)
             else
               Inr (setButtonLoading ''btnAiFeedback'' True d1,
                    [Fetch ''/ai-feedback'' ''POST''
                       (Some (JObj [(''bulls'', json_of_num bulls), (''cows'', json_of_num cows)]))],
                    Some (bulls, cows))))"

definition submitAiFeedback_resume ::
  "jsnum \<Rightarrow> jsnum \<Rightarrow> feedback_reply fetched \<Rightarrow> dom \<Rightarrow> dom \<times> effect list" where
  "submitAiFeedback_resume bulls cows reply d =
     (let fin = setButtonLoading ''btnAiFeedback'' False;
          network_error = showError ''aiError'' ''Network error. Please try again.''
      in case reply of
           NetworkError \<Rightarrow> (fin (network_error d), [])
         | Reply data \<Rightarrow>
             if \<not> fr_success data then
               (fin (showError ''aiError'' (or_else (fr_error data) ''Invalid feedback.'') d), [])
             else
               let guess = strip_spaces
                             (case elems d ''aiGuessDisplay'' of None \<Rightarrow> ''????''
                              | Some aiDisplay \<Rightarrow> el_text aiDisplay);
                   d1 = addHistoryRow ''aiHistory'' guess bulls cows d
               in case and_then (upd_strict ''aiBulls'' (\<lambda>el. el\<lparr>el_value := ''0''\<rparr>) d1)
                                (upd_strict ''aiCows'' (\<lambda>el. el\<lparr>el_value := ''0''\<rparr>)) of
                    (d2, Some _) \<Rightarrow> (fin (network_error d2), [])
                  | (d2, None) \<Rightarrow>
                      if fr_won data then
                        (fin (hide ''aiCard'' d2),
                         [SetTimeout (CbShowWinner ''ai'' (fr_human_secret data)) 400])
                      else
                        (fin (hide ''aiCard'' d2), [SetTimeout CbShowHumanTurn 300]))"

definition submitAiFeedback ::
  "feedback_reply fetched \<Rightarrow> dom \<Rightarrow> error + dom \<times> effect list" where
  "submitAiFeedback reply d =
     (case submitAiFeedback_start d of
        Inl e \<Rightarrow> Inl e
      | Inr (d1, effs, None) \<Rightarrow> Inr (d1, effs)
      | Inr (d1, effs, Some (bulls, cows)) \<Rightarrow>
          (case submitAiFeedback_resume bulls cows reply d1 of
             (d2, effs2) \<Rightarrow> Inr (d2, effs @ effs2)))"

subsection \<open>The winner overlay\<close>

text \<open>
  The last component tells whether \<^verbatim>\<open>launchConfetti()\<close> was called. A missing inner
  element throws after the writes before it.
\<close>

definition showWinner :: "string \<Rightarrow> string option \<Rightarrow> dom \<Rightarrow> dom \<times> error option \<times> bool" where
  "showWinner winner revealedSecret d =
     (case elems d ''winOverlay'' of None \<Rightarrow> (d, None, False)
      | Some _ \<Rightarrow>
          let isHuman = (winner = ''human'');
              secret = (case revealedSecret of None \<Rightarrow> []
                        | Some s \<Rightarrow> if s = [] then [] else join_space s);
              r = and_then (and_then (and_then
                    (upd_strict ''winEmoji''
                       (\<lambda>el. el\<lparr>el_text := (if isHuman then emoji_trophy else emoji_robot)\<rparr>) d)
                    (upd_strict ''winTitle''
                       (\<lambda>el. el\<lparr>el_text := (if isHuman then ''HUMAN WINS!'' else ''AI WINS!'')\<rparr>)))
                    (upd_strict ''winSub''
                       (\<lambda>el. el\<lparr>el_text := (if isHuman then ''You cracked the AI's secret number!''
                                              else ''The AI cracked your secret number!'')\<rparr>)))
                    (upd_strict ''winSecret'' (\<lambda>el. el\<lparr>el_text := secret\<rparr>))
          in case r of
               (d', Some e) \<Rightarrow> (d', Some e, False)
             | (d', None) \<Rightarrow> (upd ''winOverlay'' (\<lambda>el. el\<lparr>el_display := ''flex''\<rparr>) d', None, isHuman))"

section \<open>Confetti\<close>

text \<open>
  Coordinates are real numbers in place of doubles; nothing below depends on rounding.
  \<open>rnd\<close> is the sequence of values \<^verbatim>\<open>Math.random()\<close> returns, in call order: ten per
  particle, in the order of the fields of the object literal.
\<close>

record particle =
  p_x :: real
  p_y :: real
  p_w :: real
  p_h :: real
  p_color :: string
  p_vx :: real
  p_vy :: real
  p_angle :: real
  p_spin :: real
  p_opacity :: real

text \<open>\<^verbatim>\<open>Math.PI\<close> is the double nearest to \<open>\<pi>\<close>.\<close>

definition Math_PI :: real where
  "Math_PI = 884279719003555 / 281474976710656"

definition COLORS :: "string list" where
  "COLORS = [''#ffb41e'', ''#ff4d4d'', ''#4daaff'', ''#39ff88'', ''#fff'', ''#ff80d5'']"

definition new_particle :: "(nat \<Rightarrow> real) \<Rightarrow> real \<Rightarrow> nat \<Rightarrow> particle" where
  "new_particle rnd width k =
     \<lparr>p_x = rnd (10 * k) * width,
      p_y = - 20 - rnd (10 * k + 1) * 200,
      p_w = 6 + rnd (10 * k + 2) * 8,
      p_h = 8 + rnd (10 * k + 3) * 6,
      p_color = (let j = nat \<lfloor>rnd (10 * k + 4) * real (length COLORS)\<rfloor>
                 in if j < length COLORS then COLORS ! j else ''undefined''),
      p_vx = (rnd (10 * k + 5) - 0.5) * 3,
      p_vy = 2 + rnd (10 * k + 6) * 4,
      p_angle = rnd (10 * k + 7) * Math_PI * 2,
      p_spin = (rnd (10 * k + 8) - 0.5) * 0.15,
      p_opacity = 0.9 + rnd (10 * k + 9) * 0.1\<rparr>"

text \<open>
  The closure of one call: the canvas size, the particles, what is painted on the
  surface since it was last cleared, whether a frame callback is requested and not yet
  run or cancelled, the flag \<^verbatim>\<open>done\<close>, whether the stop timer is still to fire, and how
  many times \<^verbatim>\<open>requestAnimationFrame\<close> was called.
\<close>

record confetti =
  cf_width :: real
  cf_height :: real
  cf_particles :: "particle list"
  cf_drawn :: "particle list"
  cf_frame :: bool
  cf_done :: bool
  cf_timer :: bool
  cf_requests :: nat

definition alive :: "real \<Rightarrow> particle \<Rightarrow> bool" where
  "alive height p \<longleftrightarrow> \<not> p_y p > height + 20"

definition move :: "particle \<Rightarrow> particle" where
  "move p = p\<lparr>p_x := p_x p + p_vx p, p_y := p_y p + p_vy p,
              p_angle := p_angle p + p_spin p, p_vy := p_vy p + 0.05\<rparr>"

definition loop :: "confetti \<Rightarrow> confetti" where
  "loop c =
     (let ps = map (\<lambda>p. if alive (cf_height c) p then move p else p) (cf_particles c);
          drawn = map move (filter (alive (cf_height c)) (cf_particles c));
          n = length (filter (alive (cf_height c)) (cf_particles c));
          c1 = c\<lparr>cf_particles := ps, cf_drawn := drawn\<rparr>
      in if n > 0 \<and> \<not> cf_done c then c1\<lparr>cf_frame := True, cf_requests := cf_requests c + 1\<rparr>
         else c1)"

definition launchConfetti ::
  "(nat \<Rightarrow> real) \<Rightarrow> nat \<Rightarrow> nat \<Rightarrow> dom \<Rightarrow> (confetti \<times> effect list) option" where
  "launchConfetti rnd innerWidth innerHeight d =
     (case elems d ''confettiCanvas'' of None \<Rightarrow> None
      | Some _ \<Rightarrow>
          let c0 = \<lparr>cf_width = real innerWidth, cf_height = real innerHeight,
                    cf_particles = map (new_particle rnd (real innerWidth)) [0..<140],
                    cf_drawn = [], cf_frame = False, cf_done = False, cf_timer = False,
                    cf_requests = 0\<rparr>
          in Some ((loop c0)\<lparr>cf_timer := True\<rparr>, [SetTimeout CbStopConfetti 5000]))"

text \<open>
  What the browser does to a running animation: it runs the requested frame callback,
  or the stop timer fires.
\<close>

datatype cf_event = FrameDue | TimerDue

definition cf_step :: "cf_event \<Rightarrow> confetti \<Rightarrow> confetti" where
  "cf_step e c =
     (case e of
        FrameDue \<Rightarrow> if cf_frame c then loop (c\<lparr>cf_frame := False\<rparr>) else c
      | TimerDue \<Rightarrow>
          if cf_timer c then c\<lparr>cf_timer := False, cf_done := True, cf_frame := False, cf_drawn := []\<rparr>
          else c)"

definition cf_run :: "cf_event list \<Rightarrow> confetti \<Rightarrow> confetti" where
  "cf_run es c = foldl (\<lambda>c e. cf_step e c) c es"

section \<open>The page as a state machine\<close>

text \<open>
  The handlers of \<^verbatim>\<open>initOtpBoxes\<close> act on the boxes of their container; the result is
  written back to the document, and a focus they set becomes the document focus.
\<close>

definition with_group :: "string \<Rightarrow> (otp_group \<Rightarrow> otp_group) \<Rightarrow> dom \<Rightarrow> dom" where
  "with_group containerId f d =
     (case initOtpBoxes containerId d of None \<Rightarrow> d
      | Some g \<Rightarrow>
          let g' = f g;
              d' = upd containerId (\<lambda>el. el\<lparr>el_boxes := boxes g'\<rparr>) d
          in case focus g' of None \<Rightarrow> d' | Some i \<Rightarrow> d'\<lparr>doc_focus := Some (containerId, i)\<rparr>)"

text \<open>
  Everything that can happen on the game page, one event at a time (the script is
  single-threaded): a call of a submit function, the arrival of the reply to a request in
  flight (named by its position among the pending ones), the timer that starts the AI's
  turn, a tick of a live reveal
  interval, a timer callback, and the user's typing, pasting and selecting.
\<close>

datatype event =
    CallSubmitHumanGuess
  | HumanReply nat "human_reply fetched"
  | CallSubmitAiFeedback
  | FeedbackReply nat "feedback_reply fetched"
  | AiTurnTimer
  | AiTurnReply "ai_turn_reply fetched"
  | RevealTick nat
  | ShowHumanTurn
  | ShowWinner string "string option"
  | UserInput nat string
  | UserKey key
  | UserPaste nat string
  | UserSelect string string

text \<open>
  The state of the page: the document, the captured variables of the calls that await
  their reply, the live reveal intervals, and the effects issued so far. The four
  counters tally, per actor, the requests whose reply said \<^verbatim>\<open>success\<close>, and those among
  them whose reply did not say \<^verbatim>\<open>won\<close>.
\<close>

record game =
  g_dom :: dom
  g_human_pending :: "string list"
  g_ai_pending :: "(jsnum \<times> jsnum) list"
  g_turn_pending :: nat
  g_reveals :: "reveal list"
  g_effects :: "effect list"
  g_human_ok :: nat
  g_human_nonwin :: nat
  g_ai_ok :: nat
  g_ai_nonwin :: nat

definition remove_nth :: "nat \<Rightarrow> 'a list \<Rightarrow> 'a list" where
  "remove_nth k xs = take k xs @ drop (Suc k) xs"

definition new_reveals :: "effect list \<Rightarrow> reveal list" where
  "new_reveals effs = concat (map (\<lambda>e. case e of SetInterval rv _ \<Rightarrow> [rv] | _ \<Rightarrow> []) effs)"

definition succeeded_human :: "human_reply fetched \<Rightarrow> bool" where
  "succeeded_human reply = (case reply of NetworkError \<Rightarrow> False | Reply data \<Rightarrow> hr_success data)"

definition won_human :: "human_reply fetched \<Rightarrow> bool" where
  "won_human reply = (case reply of NetworkError \<Rightarrow> False | Reply data \<Rightarrow> hr_won data)"

definition succeeded_ai :: "feedback_reply fetched \<Rightarrow> bool" where
  "succeeded_ai reply = (case reply of NetworkError \<Rightarrow> False | Reply data \<Rightarrow> fr_success data)"

definition won_ai :: "feedback_reply fetched \<Rightarrow> bool" where
  "won_ai reply = (case reply of NetworkError \<Rightarrow> False | Reply data \<Rightarrow> fr_won data)"

fun step :: "event \<Rightarrow> game \<Rightarrow> game" where
  "step CallSubmitHumanGuess s =
     (case submitHumanGuess_start (g_dom s) of
        (d, effs, p) \<Rightarrow>
          s\<lparr>g_dom := d, g_effects := g_effects s @ effs,
            g_human_pending := g_human_pending s @ (case p of None \<Rightarrow> [] | Some guess \<Rightarrow> [guess])\<rparr>)"
| "step (HumanReply k reply) s =
     (if k < length (g_human_pending s) then
        (case submitHumanGuess_resume (g_human_pending s ! k) reply (g_dom s) of
           (d, effs) \<Rightarrow>
             s\<lparr>g_dom := d, g_effects := g_effects s @ effs,
               g_human_pending := remove_nth k (g_human_pending s),
               g_human_ok := g_human_ok s + (if succeeded_human reply then 1 else 0),
               g_human_nonwin := g_human_nonwin s +
                 (if succeeded_human reply \<and> \<not> won_human reply then 1 else 0)\<rparr>)
      else s)"
| "step CallSubmitAiFeedback s =
     (case submitAiFeedback_start (g_dom s) of
        Inl _ \<Rightarrow> s
      | Inr (d, effs, p) \<Rightarrow>
          s\<lparr>g_dom := d, g_effects := g_effects s @ effs,
            g_ai_pending := g_ai_pending s @ (case p of None \<Rightarrow> [] | Some bc \<Rightarrow> [bc])\<rparr>)"
| "step (FeedbackReply k reply) s =
     (if k < length (g_ai_pending s) then
        (case submitAiFeedback_resume (fst (g_ai_pending s ! k)) (snd (g_ai_pending s ! k))
                reply (g_dom s) of
           (d, effs) \<Rightarrow>
             s\<lparr>g_dom := d, g_effects := g_effects s @ effs,
               g_ai_pending := remove_nth k (g_ai_pending s),
               g_ai_ok := g_ai_ok s + (if succeeded_ai reply then 1 else 0),
               g_ai_nonwin := g_ai_nonwin s +
                 (if succeeded_ai reply \<and> \<not> won_ai reply then 1 else 0)\<rparr>)
      else s)"
| "step AiTurnTimer s =
     s\<lparr>g_dom := hide ''resultFlash'' (g_dom s),
       g_effects := g_effects s @ [Fetch ''/ai-turn'' ''GET'' None],
       g_turn_pending := g_turn_pending s + 1\<rparr>"
| "step (AiTurnReply reply) s =
     (if g_turn_pending s > 0 then
        (case triggerAiTurn_resume reply (g_dom s) of
           (d, effs) \<Rightarrow>
             s\<lparr>g_dom := d, g_effects := g_effects s @ effs,
               g_turn_pending := g_turn_pending s - 1,
               g_reveals := g_reveals s @ new_reveals effs\<rparr>)
      else s)"
| "step (RevealTick k) s =
     (if k < length (g_reveals s) then
        (case reveal_tick (g_reveals s ! k) (g_dom s) of
           (d, None) \<Rightarrow> s\<lparr>g_dom := d, g_reveals := remove_nth k (g_reveals s)\<rparr>
         | (d, Some rv) \<Rightarrow> s\<lparr>g_dom := d, g_reveals := (g_reveals s)[k := rv]\<rparr>)
      else s)"
| "step ShowHumanTurn s = s\<lparr>g_dom := showHumanTurn (g_dom s)\<rparr>"
| "step (ShowWinner winner secret) s = s\<lparr>g_dom := fst (showWinner winner secret (g_dom s))\<rparr>"
| "step (UserInput idx val) s = s\<lparr>g_dom := with_group ''guessInputs'' (on_input idx val) (g_dom s)\<rparr>"
| "step (UserKey k) s = s\<lparr>g_dom := with_group ''guessInputs'' (press_key k) (g_dom s)\<rparr>"
| "step (UserPaste idx clip) s = s\<lparr>g_dom := with_group ''guessInputs'' (on_paste idx clip) (g_dom s)\<rparr>"
| "step (UserSelect i v) s = s\<lparr>g_dom := upd i (\<lambda>el. el\<lparr>el_value := v\<rparr>) (g_dom s)\<rparr>"

definition run :: "event list \<Rightarrow> game \<Rightarrow> game" where
  "run es s = foldl (\<lambda>s e. step e s) s es"

definition start_game :: "dom \<Rightarrow> game" where
  "start_game d =
     \<lparr>g_dom = d, g_human_pending = [], g_ai_pending = [], g_turn_pending = 0, g_reveals = [], g_effects = [],
      g_human_ok = 0, g_human_nonwin = 0, g_ai_ok = 0, g_ai_nonwin = 0\<rparr>"

text \<open>The rows of a history list: its children that are rows, not the placeholder.\<close>

definition is_row :: "hist_child \<Rightarrow> bool" where
  "is_row c = (case c of HistoryEmpty \<Rightarrow> False | HistoryRow _ _ _ \<Rightarrow> True)"

definition rows :: "string \<Rightarrow> dom \<Rightarrow> hist_child list" where
  "rows listId d = (case elems d listId of None \<Rightarrow> [] | Some lst \<Rightarrow> filter is_row (el_children lst))"

definition row_count :: "string \<Rightarrow> dom \<Rightarrow> nat" where
  "row_count listId d = length (rows listId d)"

text \<open>The children of every element that is there, which is what a history list holds.\<close>

definition children_of :: "dom \<Rightarrow> string \<Rightarrow> hist_child list option" where
  "children_of d i = map_option el_children (elems d i)"

text \<open>
  An animation is stopped once its timer has fired: nothing is requested, nothing is
  painted, and \<^verbatim>\<open>done\<close> is set.
\<close>

definition stopped :: "confetti \<Rightarrow> bool" where
  "stopped c \<longleftrightarrow> \<not> cf_timer c \<and> cf_done c \<and> \<not> cf_frame c \<and> cf_drawn c = []"

section \<open>Concrete pages and groups\<close>

text \<open>Inputs on which the properties below are evaluated.\<close>

definition sample_group :: otp_group where
  "sample_group =
     \<lparr>boxes = [\<lparr>box_value = ''7'', box_filled = True\<rparr>, \<lparr>box_value = [], box_filled = False\<rparr>,
               \<lparr>box_value = [], box_filled = False\<rparr>, \<lparr>box_value = ''8'', box_filled = True\<rparr>],
      focus = Some 1\<rparr>"

definition full_group :: otp_group where
  "full_group =
     \<lparr>boxes = [\<lparr>box_value = ''1'', box_filled = True\<rparr>, \<lparr>box_value = ''2'', box_filled = True\<rparr>,
               \<lparr>box_value = ''3'', box_filled = True\<rparr>, \<lparr>box_value = ''4'', box_filled = True\<rparr>],
      focus = Some 3\<rparr>"

definition blank :: element where
  "blank = \<lparr>el_value = [], el_text = [], el_display = [], el_animation = [],
            el_disabled = False, el_innerHTML = [], el_originalHTML = None,
            el_boxes = [], el_children = [], el_at_bottom = False\<rparr>"

definition empty_page :: dom where
  "empty_page = \<lparr>elems = Map.empty, doc_focus = None\<rparr>"

text \<open>A page with the error line and two digits in the guess boxes.\<close>

definition short_guess_page :: dom where
  "short_guess_page =
     \<lparr>elems = [''guessInputs'' \<mapsto> blank\<lparr>el_boxes := boxes sample_group\<rparr>,
               ''humanError'' \<mapsto> blank\<lparr>el_display := ''none''\<rparr>],
      doc_focus = None\<rparr>"

text \<open>A page whose selects hold 3 bulls and 2 cows.\<close>

definition feedback_page :: dom where
  "feedback_page =
     \<lparr>elems = [''aiBulls'' \<mapsto> blank\<lparr>el_value := ''3''\<rparr>,
               ''aiCows'' \<mapsto> blank\<lparr>el_value := ''2''\<rparr>,
               ''aiError'' \<mapsto> blank\<lparr>el_display := ''none''\<rparr>],
      doc_focus = None\<rparr>"

text \<open>A page whose bulls select holds no number.\<close>

definition unset_select_page :: dom where
  "unset_select_page =
     \<lparr>elems = [''aiBulls'' \<mapsto> blank, ''aiCows'' \<mapsto> blank\<lparr>el_value := ''1''\<rparr>],
      doc_focus = None\<rparr>"

text \<open>
  A game page with every element the script looks up: the guess \<open>1234\<close> typed, both
  history lists holding their placeholder, the AI card hidden, both selects at \<open>1\<close>.
\<close>

definition game_page :: dom where
  "game_page =
     \<lparr>elems = [''guessInputs'' \<mapsto> blank\<lparr>el_boxes := boxes full_group\<rparr>,
               ''humanError'' \<mapsto> blank\<lparr>el_display := ''none''\<rparr>,
               ''btnHumanSubmit'' \<mapsto> blank\<lparr>el_innerHTML := ''Guess''\<rparr>,
               ''humanHistory'' \<mapsto> blank\<lparr>el_children := [HistoryEmpty]\<rparr>,
               ''humanCard'' \<mapsto> blank,
               ''resultFlash'' \<mapsto> blank\<lparr>el_display := ''none''\<rparr>,
               ''resultEmoji'' \<mapsto> blank,
               ''resultScore'' \<mapsto> blank,
               ''resultSub'' \<mapsto> blank,
               ''aiCard'' \<mapsto> blank\<lparr>el_display := ''none''\<rparr>,
               ''aiGuessDisplay'' \<mapsto> blank,
               ''aiBulls'' \<mapsto> blank\<lparr>el_value := ''1''\<rparr>,
               ''aiCows'' \<mapsto> blank\<lparr>el_value := ''1''\<rparr>,
               ''aiError'' \<mapsto> blank\<lparr>el_display := ''none''\<rparr>,
               ''btnAiFeedback'' \<mapsto> blank\<lparr>el_innerHTML := ''Send''\<rparr>,
               ''aiHistory'' \<mapsto> blank\<lparr>el_children := [HistoryEmpty]\<rparr>,
               ''winOverlay'' \<mapsto> blank\<lparr>el_display := ''none''\<rparr>,
               ''winEmoji'' \<mapsto> blank,
               ''winTitle'' \<mapsto> blank,
               ''winSub'' \<mapsto> blank,
               ''winSecret'' \<mapsto> blank,
               ''confettiCanvas'' \<mapsto> blank],
      doc_focus = Some (''guessInputs'', 3)\<rparr>"

definition winning_data :: human_reply where
  "winning_data =
     \<lparr>hr_success = True, hr_error = None, hr_bulls = Num 4, hr_cows = Num 0,
      hr_won = True, hr_ai_secret = Some ''1234''\<rparr>"

definition winning_reply :: "human_reply fetched" where
  "winning_reply = Reply winning_data"

definition ai_guess_data :: ai_turn_reply where
  "ai_guess_data = \<lparr>at_success = True, at_error = None, at_ai_guess = ''5678''\<rparr>"

definition ai_guess_reply :: "ai_turn_reply fetched" where
  "ai_guess_reply = Reply ai_guess_data"

definition feedback_ok_data :: feedback_reply where
  "feedback_ok_data =
     \<lparr>fr_success = True, fr_error = None, fr_won = False, fr_human_secret = None\<rparr>"

definition feedback_ok_reply :: "feedback_reply fetched" where
  "feedback_ok_reply = Reply feedback_ok_data"

text \<open>The human submits \<open>1234\<close> and the server answers that this guess wins.\<close>

definition won_game :: game where
  "won_game = run [CallSubmitHumanGuess, HumanReply 0 winning_reply] (start_game game_page)"

text \<open>
  The AI's guess \<open>5678\<close> has just arrived; then feedback is submitted at once, before
  any tick of the reveal.
\<close>

definition ai_guess_arrived :: game where
  "ai_guess_arrived = run [AiTurnTimer, AiTurnReply ai_guess_reply] (start_game game_page)"

definition early_feedback :: game where
  "early_feedback = step CallSubmitAiFeedback ai_guess_arrived"

text \<open>
  Feedback is submitted after the third tick of the reveal; the fourth tick comes while
  the request is in flight, and then the reply.
\<close>

definition third_tick :: game where
  "third_tick = run [RevealTick 0, RevealTick 0, RevealTick 0] ai_guess_arrived"

definition feedback_sent :: game where
  "feedback_sent = step CallSubmitAiFeedback third_tick"

definition late_reply :: game where
  "late_reply = run [RevealTick 0, FeedbackReply 0 feedback_ok_reply] feedback_sent"

text \<open>
  A confetti launch on the game page in a window of 800 by 600, every random draw being
  one half; then one frame runs.
\<close>

definition sample_confetti :: confetti where
  "sample_confetti = fst (the (launchConfetti (\<lambda>_. 1 / 2) 800 600 game_page))"

definition one_frame :: confetti where
  "one_frame = cf_run [FrameDue] sample_confetti"

section \<open>The digit input group\<close>

lemma length_write_digits: "length (write_digits i ds bs) = length bs"
  by (induction ds arbitrary: i bs) auto

lemma nth_write_digits:
  "j < length bs \<Longrightarrow>
   write_digits i ds bs ! j =
     (if i \<le> j \<and> j < i + length ds then (bs ! j)\<lparr>box_value := [ds ! (j - i)], box_filled := True\<rparr>
      else bs ! j)"
proof (induction ds arbitrary: i bs)
  case Nil
  then show ?case by auto
next
  case (Cons ch chs)
  show ?case
  proof (cases "i < length bs")
    case True
    let ?bs = "bs[i := (bs ! i)\<lparr>box_value := [ch], box_filled := True\<rparr>]"
    have "j < length ?bs" using Cons.prems by simp
    from Cons.IH[OF this, of "Suc i"] True Cons.prems show ?thesis
      by (auto simp: nth_list_update nth_Cons' Suc_diff_le)
  next
    case False
    with Cons.IH[OF Cons.prems, of "Suc i"] Cons.prems show ?thesis by auto
  qed
qed

lemma first_empty_Some:
  "first_empty bs = Some j \<Longrightarrow>
   j < length bs \<and> box_value (bs ! j) = [] \<and> (\<forall>i<j. box_value (bs ! i) \<noteq> [])"
proof (induction bs arbitrary: j)
  case Nil
  then show ?case by simp
next
  case (Cons b bs)
  then show ?case
    by (auto split: if_splits simp: nth_Cons' less_Suc_eq_0_disj)
qed

lemma first_empty_None: "first_empty bs = None \<Longrightarrow> \<forall>b\<in>set bs. box_value b \<noteq> []"
  by (induction bs) (auto split: if_splits)

text \<open>
  Claim C5. A paste into a group of four cells writes the first digits of the clipboard
  text, at most four of them and in their order, into the cells from cell 0 on and marks
  each written cell filled; non-digits are ignored, later digits dropped, and the cells
  beyond the digits written are left as they were. The focus then is on the first cell
  whose value is empty, or on the last cell when no cell is empty.
\<close>

theorem paste_fills_first_four_digits:
  assumes len: "length (boxes g) = 4" and idx: "idx < 4"
  shows "let ds = take 4 (filter is_digit clip); g' = on_paste idx clip g in
     length (boxes g') = 4 \<and>
     (\<forall>i<4. boxes g' ! i =
           (if i < length ds then (boxes g ! i)\<lparr>box_value := [ds ! i], box_filled := True\<rparr>
            else boxes g ! i)) \<and>
     (\<exists>j<4. focus g' = Some j \<and>
            (if \<exists>i<4. box_value (boxes g' ! i) = []
             then box_value (boxes g' ! j) = [] \<and> (\<forall>i<j. box_value (boxes g' ! i) \<noteq> [])
             else j = 3))"
proof -
  define ds where "ds = take 4 (filter is_digit clip)"
  define g' where "g' = on_paste idx clip g"
  let ?bs = "write_digits 0 ds (boxes g)"
  have bs: "boxes g' = ?bs"
    using len idx
    by (simp add: g'_def on_paste_def ds_def strip_non_digits_def Let_def split: option.splits)
  have l: "length (boxes g') = 4" using bs len by (simp add: length_write_digits)
  have w: "\<forall>i<4. boxes g' ! i =
           (if i < length ds then (boxes g ! i)\<lparr>box_value := [ds ! i], box_filled := True\<rparr>
            else boxes g ! i)"
    using bs len by (simp add: nth_write_digits)
  have f: "\<exists>j<4. focus g' = Some j \<and>
            (if \<exists>i<4. box_value (boxes g' ! i) = []
             then box_value (boxes g' ! j) = [] \<and> (\<forall>i<j. box_value (boxes g' ! i) \<noteq> [])
             else j = 3)"
  proof (cases "first_empty ?bs")
    case None
    then have f: "focus g' = Some 3"
      using len idx
      by (simp add: g'_def on_paste_def ds_def strip_non_digits_def Let_def length_write_digits)
    have "\<forall>i<4. box_value (boxes g' ! i) \<noteq> []"
      using first_empty_None[OF None] bs l by (metis nth_mem)
    with f show ?thesis by auto
  next
    case (Some j)
    then have f: "focus g' = Some j"
      using len idx by (simp add: g'_def on_paste_def ds_def strip_non_digits_def Let_def)
    from first_empty_Some[OF Some] bs l f show ?thesis by auto
  qed
  from l w f show ?thesis unfolding Let_def ds_def[symmetric] g'_def[symmetric] by blast
qed

theorem paste_fills_first_four_digits_witness:
  "length (boxes sample_group) = 4 \<and> (1::nat) < 4 \<and>
   take 4 (filter is_digit ''a1-2b3'') = ''123'' \<and>
   on_paste 1 ''a1-2b3'' sample_group =
     \<lparr>boxes = [\<lparr>box_value = ''1'', box_filled = True\<rparr>, \<lparr>box_value = ''2'', box_filled = True\<rparr>,
               \<lparr>box_value = ''3'', box_filled = True\<rparr>, \<lparr>box_value = ''8'', box_filled = True\<rparr>],
      focus = Some 3\<rparr>"
proof -
  have h1: "length (boxes sample_group) = 4" by (simp add: sample_group_def)
  have h2: "(1::nat) < 4" by simp
  have d: "take 4 (filter is_digit ''a1-2b3'') = ''123''" by (simp add: is_digit_def)
  have e: "on_paste 1 ''a1-2b3'' sample_group =
     \<lparr>boxes = [\<lparr>box_value = ''1'', box_filled = True\<rparr>, \<lparr>box_value = ''2'', box_filled = True\<rparr>,
               \<lparr>box_value = ''3'', box_filled = True\<rparr>, \<lparr>box_value = ''8'', box_filled = True\<rparr>],
      focus = Some 3\<rparr>"
    by (simp add: sample_group_def on_paste_def strip_non_digits_def is_digit_def Let_def)
  from h1 h2 d e paste_fills_first_four_digits [OF h1 h2, of "''a1-2b3''"]
  show ?thesis by (simp only: simp_thms)
qed

text \<open>
  Claim C6. In a group of four cells that are all filled, with the focus on the last
  cell, four presses of Backspace, each delivered to the cell that has the focus, leave
  every cell empty and not marked filled, with the focus on the first cell.
\<close>

theorem backspace_four_times_empties_group:
  assumes "length (boxes g) = 4"
    and "\<forall>b \<in> set (boxes g). box_value b \<noteq> []"
    and "focus g = Some 3"
  shows "let g' = (press_key Backspace ^^ 4) g in
     length (boxes g') = 4 \<and>
     (\<forall>b \<in> set (boxes g'). box_value b = [] \<and> \<not> box_filled b) \<and>
     focus g' = Some 0"
proof -
  obtain a b c e where bs: "boxes g = [a, b, c, e]"
    using assms(1) by (auto simp: length_Suc_conv numeral_eq_Suc)
  show ?thesis using assms(2,3) bs
    by (simp add: numeral_eq_Suc press_key_def on_keydown_def Let_def)
qed

theorem backspace_four_times_empties_group_witness:
  "length (boxes full_group) = 4 \<and> focus full_group = Some 3 \<and>
   map box_value (boxes full_group) = [''1'', ''2'', ''3'', ''4''] \<and>
   (press_key Backspace ^^ 4) full_group =
     \<lparr>boxes = [\<lparr>box_value = [], box_filled = False\<rparr>, \<lparr>box_value = [], box_filled = False\<rparr>,
               \<lparr>box_value = [], box_filled = False\<rparr>, \<lparr>box_value = [], box_filled = False\<rparr>],
      focus = Some 0\<rparr>"
proof -
  have h1: "length (boxes full_group) = 4" by (simp add: full_group_def)
  have h2: "\<forall>b \<in> set (boxes full_group). box_value b \<noteq> []" by (simp add: full_group_def)
  have h3: "focus full_group = Some 3" by (simp add: full_group_def)
  have v: "map box_value (boxes full_group) = [''1'', ''2'', ''3'', ''4'']"
    by (simp add: full_group_def)
  have e: "(press_key Backspace ^^ 4) full_group =
     \<lparr>boxes = [\<lparr>box_value = [], box_filled = False\<rparr>, \<lparr>box_value = [], box_filled = False\<rparr>,
               \<lparr>box_value = [], box_filled = False\<rparr>, \<lparr>box_value = [], box_filled = False\<rparr>],
      focus = Some 0\<rparr>"
    by (simp add: full_group_def numeral_eq_Suc press_key_def on_keydown_def Let_def)
  from h1 h3 v e backspace_four_times_empties_group [OF h1 h2 h3]
  show ?thesis by (simp only: simp_thms)
qed

section \<open>Guards before the requests\<close>

text \<open>
  Claim C1. Whenever the string read from the guess boxes has a length other than 4,
  \<^verbatim>\<open>submitHumanGuess\<close> issues no request and no other effect, and captures nothing for
  a reply: all it does is hide and then show the error line through \<^verbatim>\<open>showError\<close>, so
  that the error element, where the page has it, shows the message. This holds for
  every document and every reply the server might have given.
\<close>

theorem short_guess_sends_no_request:
  assumes "length (getOtpValue ''guessInputs'' d) \<noteq> 4"
  shows "submitHumanGuess_start d =
           (showError ''humanError'' ''Fill in all 4 digits.'' (clearError ''humanError'' d),
            [], None) \<and>
         submitHumanGuess reply d =
           (showError ''humanError'' ''Fill in all 4 digits.'' (clearError ''humanError'' d), []) \<and>
         (\<forall>el. elems d ''humanError'' = Some el \<longrightarrow>
            elems (fst (submitHumanGuess reply d)) ''humanError'' =
              Some (el\<lparr>el_text := ''Fill in all 4 digits.'', el_display := [],
                       el_animation := []\<rparr>))"
  using assms
  by (auto simp: submitHumanGuess_def submitHumanGuess_start_def Let_def showError_def
      clearError_def upd_def)

theorem short_guess_sends_no_request_witness:
  "getOtpValue ''guessInputs'' short_guess_page = ''78'' \<and>
   snd (submitHumanGuess NetworkError short_guess_page) = [] \<and>
   elems (fst (submitHumanGuess NetworkError short_guess_page)) ''humanError'' =
     Some (blank\<lparr>el_text := ''Fill in all 4 digits.''\<rparr>)"
proof -
  have v: "getOtpValue ''guessInputs'' short_guess_page = ''78''"
    by (simp add: getOtpValue_def short_guess_page_def sample_group_def blank_def)
  then have h: "length (getOtpValue ''guessInputs'' short_guess_page) \<noteq> 4" by simp
  have e: "elems short_guess_page ''humanError'' = Some (blank\<lparr>el_display := ''none''\<rparr>)"
    by (simp add: short_guess_page_def)
  note t = short_guess_sends_no_request [OF h, of NetworkError]
  from t have a: "snd (submitHumanGuess NetworkError short_guess_page) = []" by simp
  from t e have b: "elems (fst (submitHumanGuess NetworkError short_guess_page)) ''humanError'' =
      Some (blank\<lparr>el_display := ''none'', el_text := ''Fill in all 4 digits.'',
                  el_display := [], el_animation := []\<rparr>)"
    by blast
  from v a b show ?thesis by (simp add: blank_def)
qed

text \<open>
  Claim C2. Whenever the two selects are on the page and their parsed values have a sum
  above 4, \<^verbatim>\<open>submitAiFeedback\<close> issues no request and no other effect: it hides and then
  shows the error line through \<^verbatim>\<open>showError\<close> and returns, so that the error element,
  where the page has it, shows the message.
\<close>

theorem feedback_above_four_sends_no_request:
  assumes "elems d ''aiBulls'' = Some eb" and "elems d ''aiCows'' = Some ec"
    and "js_gt (js_add (parseInt (el_value eb)) (parseInt (el_value ec))) (Num 4)"
  shows "submitAiFeedback_start d =
           Inr (showError ''aiError'' ''Bulls + Cows cannot exceed 4.'' (clearError ''aiError'' d),
                [], None) \<and>
         submitAiFeedback reply d =
           Inr (showError ''aiError'' ''Bulls + Cows cannot exceed 4.'' (clearError ''aiError'' d),
                []) \<and>
         (\<forall>el. elems d ''aiError'' = Some el \<longrightarrow>
            elems (showError ''aiError'' ''Bulls + Cows cannot exceed 4.''
                     (clearError ''aiError'' d)) ''aiError'' =
              Some (el\<lparr>el_text := ''Bulls + Cows cannot exceed 4.'', el_display := [],
                       el_animation := []\<rparr>))"
  using assms
  by (auto simp: submitAiFeedback_def submitAiFeedback_start_def Let_def showError_def
      clearError_def upd_def)

theorem feedback_above_four_sends_no_request_witness:
  "parseInt ''3'' = Num 3 \<and> parseInt ''2'' = Num 2 \<and> js_gt (js_add (Num 3) (Num 2)) (Num 4) \<and>
   (\<exists>d. submitAiFeedback NetworkError feedback_page = Inr (d, []) \<and>
        elems d ''aiError'' = Some (blank\<lparr>el_text := ''Bulls + Cows cannot exceed 4.''\<rparr>))"
proof -
  have p3: "parseInt ''3'' = Num 3"
    by (simp add: parseInt_def is_space_def is_digit_def digits_val_def digit_val_def Let_def)
  have p2: "parseInt ''2'' = Num 2"
    by (simp add: parseInt_def is_space_def is_digit_def digits_val_def digit_val_def Let_def)
  have gt: "js_gt (js_add (Num 3) (Num 2)) (Num 4)" by (simp add: js_gt_def js_add_def)
  have h1: "elems feedback_page ''aiBulls'' = Some (blank\<lparr>el_value := ''3''\<rparr>)"
    by (simp add: feedback_page_def)
  have h2: "elems feedback_page ''aiCows'' = Some (blank\<lparr>el_value := ''2''\<rparr>)"
    by (simp add: feedback_page_def)
  have h3: "js_gt (js_add (parseInt (el_value (blank\<lparr>el_value := ''3''\<rparr>)))
                          (parseInt (el_value (blank\<lparr>el_value := ''2''\<rparr>)))) (Num 4)"
    using p3 p2 gt by simp
  have e: "elems feedback_page ''aiError'' = Some (blank\<lparr>el_display := ''none''\<rparr>)"
    by (simp add: feedback_page_def)
  from p3 p2 gt e feedback_above_four_sends_no_request [OF h1 h2 h3, of NetworkError]
  show ?thesis by (simp add: blank_def)
qed

text \<open>
  Claim C9. Whenever the two selects are on the page and the value of one of them parses
  to \<open>NaN\<close>, the guard does not fire (a comparison with \<open>NaN\<close> is false) and the
  feedback request is issued; the field built from \<open>NaN\<close> is not a number in the JSON
  body, where \<^verbatim>\<open>JSON.stringify\<close> writes it as \<^verbatim>\<open>null\<close>. A page whose bulls select
  has the empty value is such a page.
\<close>

theorem nan_feedback_passes_guard:
  assumes "elems d ''aiBulls'' = Some eb" and "elems d ''aiCows'' = Some ec"
    and "parseInt (el_value eb) = NaN \<or> parseInt (el_value ec) = NaN"
  shows "\<not> js_gt (js_add (parseInt (el_value eb)) (parseInt (el_value ec))) (Num 4) \<and>
         submitAiFeedback_start d =
           Inr (setButtonLoading ''btnAiFeedback'' True (clearError ''aiError'' d),
                [Fetch ''/ai-feedback'' ''POST''
                   (Some (JObj [(''bulls'', json_of_num (parseInt (el_value eb))),
                               (''cows'', json_of_num (parseInt (el_value ec)))]))],
                Some (parseInt (el_value eb), parseInt (el_value ec))) \<and>
         (json_of_num (parseInt (el_value eb)) = JNull \<or>
          json_of_num (parseInt (el_value ec)) = JNull)"
  using assms
  by (auto simp: submitAiFeedback_start_def Let_def js_gt_def js_add_def json_of_num_def
      split: jsnum.splits)

theorem nan_feedback_passes_guard_witness:
  "parseInt [] = NaN \<and> parseInt ''1'' = Num 1 \<and>
   (\<exists>d. submitAiFeedback_start unset_select_page =
          Inr (d, [Fetch ''/ai-feedback'' ''POST''
                     (Some (JObj [(''bulls'', JNull), (''cows'', JNum 1)]))],
               Some (NaN, Num 1)))"
proof -
  have pe: "parseInt [] = NaN" by (simp add: parseInt_def)
  have p1: "parseInt ''1'' = Num 1"
    by (simp add: parseInt_def is_space_def is_digit_def digits_val_def digit_val_def Let_def)
  have h1: "elems unset_select_page ''aiBulls'' = Some blank"
    by (simp add: unset_select_page_def)
  have h2: "elems unset_select_page ''aiCows'' = Some (blank\<lparr>el_value := ''1''\<rparr>)"
    by (simp add: unset_select_page_def)
  have h3: "parseInt (el_value blank) = NaN \<or> parseInt (el_value (blank\<lparr>el_value := ''1''\<rparr>)) = NaN"
    using pe by (simp add: blank_def)
  have v: "el_value blank = []" by (simp add: blank_def)
  from pe p1 v nan_feedback_passes_guard [OF h1 h2 h3]
  show ?thesis by (simp add: json_of_num_def)
qed

section \<open>Identifiers that do not resolve\<close>

text \<open>
  Claim C8. An operation given an identifier that resolves to no element leaves the
  document as it is and does not throw: reading the boxes gives the empty string,
  attaching registers nothing, and clearing, showing, hiding, the two error helpers, the
  button helper and the history append change nothing. The operations that look up a
  fixed identifier of their own (the winner overlay, the result flash, the AI guess
  display, the confetti canvas) do nothing either when that identifier does not resolve.
\<close>

theorem unresolved_identifier_is_noop:
  "(elems d i = None \<longrightarrow>
      getOtpValue i d = [] \<and> clearOtpBoxes i d = d \<and> initOtpBoxes i d = None \<and>
      show_el i d = d \<and> hide i d = d \<and> showError i msg d = d \<and> clearError i d = d \<and>
      addHistoryRow i guess bulls cows d = d \<and> setButtonLoading i loading d = d) \<and>
   (elems d ''winOverlay'' = None \<longrightarrow> showWinner winner secret d = (d, None, False)) \<and>
   (elems d ''resultFlash'' = None \<longrightarrow> showResultFlash guess bulls cows d = (d, None)) \<and>
   (elems d ''aiGuessDisplay'' = None \<longrightarrow> displayAiGuess guess d = (d, [])) \<and>
   (elems d ''confettiCanvas'' = None \<longrightarrow> launchConfetti rnd w h d = None)"
  by (simp add: getOtpValue_def clearOtpBoxes_def initOtpBoxes_def show_el_def hide_def
      showError_def clearError_def addHistoryRow_def setButtonLoading_def upd_def
      showWinner_def showResultFlash_def displayAiGuess_def launchConfetti_def)

theorem unresolved_identifier_is_noop_witness:
  "elems short_guess_page ''humanHistory'' = None \<and>
   getOtpValue ''humanHistory'' short_guess_page = [] \<and>
   clearOtpBoxes ''humanHistory'' short_guess_page = short_guess_page \<and>
   showError ''humanHistory'' ''x'' short_guess_page = short_guess_page \<and>
   addHistoryRow ''humanHistory'' ''1234'' (Num 1) (Num 2) short_guess_page = short_guess_page \<and>
   showWinner ''human'' (Some ''5678'') short_guess_page = (short_guess_page, None, False) \<and>
   showResultFlash ''1234'' (Num 1) (Num 2) short_guess_page = (short_guess_page, None) \<and>
   displayAiGuess ''1234'' short_guess_page = (short_guess_page, []) \<and>
   launchConfetti (\<lambda>_. 0) 800 600 short_guess_page = None"
proof -
  have h: "elems short_guess_page ''humanHistory'' = None"
    "elems short_guess_page ''winOverlay'' = None"
    "elems short_guess_page ''resultFlash'' = None"
    "elems short_guess_page ''aiGuessDisplay'' = None"
    "elems short_guess_page ''confettiCanvas'' = None"
    by (simp_all add: short_guess_page_def)
  from h unresolved_identifier_is_noop [of short_guess_page "''humanHistory''" "''x''" "''1234''"
      "Num 1" "Num 2" False "''human''" "Some ''5678''" "\<lambda>_. 0" 800 600]
  show ?thesis by simp
qed

section \<open>History logs\<close>

text \<open>
  No operation of the script but \<^verbatim>\<open>addHistoryRow\<close> touches the children of an element,
  and none adds or removes an element.
\<close>

lemma children_upd:
  "(\<And>e. el_children (f e) = el_children e) \<Longrightarrow> children_of (upd j f d) = children_of d"
  by (auto simp: children_of_def upd_def fun_eq_iff split: option.splits)

lemma children_upd_strict:
  "(\<And>e. el_children (f e) = el_children e) \<Longrightarrow> children_of (fst (upd_strict j f d)) = children_of d"
  by (auto simp: children_of_def upd_strict_def fun_eq_iff split: option.splits)

lemma children_focus [simp]: "children_of (d\<lparr>doc_focus := x\<rparr>) = children_of d"
  by (simp add: children_of_def fun_eq_iff)

lemma children_and_then:
  "(\<And>d'. children_of (fst (f d')) = children_of d') \<Longrightarrow>
   children_of (fst (and_then r f)) = children_of (fst r)"
  by (auto simp: and_then_def split: prod.splits option.splits)

lemma children_show_el [simp]: "children_of (show_el i d) = children_of d"
  by (simp add: show_el_def children_upd)

lemma children_hide [simp]: "children_of (hide i d) = children_of d"
  by (simp add: hide_def children_upd)

lemma children_clearError [simp]: "children_of (clearError i d) = children_of d"
  by (simp add: clearError_def children_upd)

lemma children_showError [simp]: "children_of (showError i msg d) = children_of d"
  by (auto simp: showError_def children_of_def fun_eq_iff split: option.splits)

lemma children_setButtonLoading [simp]: "children_of (setButtonLoading i l d) = children_of d"
  by (auto simp: setButtonLoading_def children_of_def fun_eq_iff Let_def split: option.splits)

lemma children_clearOtpBoxes [simp]: "children_of (clearOtpBoxes i d) = children_of d"
  by (auto simp: clearOtpBoxes_def children_of_def fun_eq_iff Let_def split: option.splits)

lemma children_showResultFlash [simp]:
  "children_of (fst (showResultFlash g b c d)) = children_of d"
  by (simp add: showResultFlash_def Let_def children_and_then children_upd_strict children_upd
      split: option.splits)

lemma children_case_result:
  "(\<And>e. el_children (f e) = el_children e) \<Longrightarrow>
   children_of (fst (case r of (d', Some e) \<Rightarrow> (d', Some e, False)
                     | (d', None) \<Rightarrow> (upd i f d', None, b))) = children_of (fst r)"
  by (cases r; cases "snd r") (auto simp: children_upd)

lemma children_showWinner [simp]: "children_of (fst (showWinner w s d)) = children_of d"
  by (simp add: showWinner_def Let_def children_case_result children_and_then
      children_upd_strict split: option.split)

lemma children_with_group [simp]: "children_of (with_group i f d) = children_of d"
  by (auto simp: with_group_def Let_def children_upd split: option.splits)

lemma children_showHumanTurn [simp]: "children_of (showHumanTurn d) = children_of d"
  by (auto simp: showHumanTurn_def Let_def split: option.splits)

lemma children_displayAiGuess [simp]: "children_of (fst (displayAiGuess g d)) = children_of d"
  by (auto simp: displayAiGuess_def Let_def children_upd split: option.splits)

lemma children_triggerAiTurn_resume [simp]:
  "children_of (fst (triggerAiTurn_resume r d)) = children_of d"
  by (auto simp: triggerAiTurn_resume_def split: fetched.splits)

lemma children_reveal_tick [simp]: "children_of (fst (reveal_tick rv d)) = children_of d"
  by (auto simp: reveal_tick_def Let_def children_upd)

lemma children_submitHumanGuess_start [simp]:
  "children_of (fst (submitHumanGuess_start d)) = children_of d"
  by (auto simp: submitHumanGuess_start_def Let_def)

lemma children_submitAiFeedback_start [simp]:
  "submitAiFeedback_start d = Inr (d', x) \<Longrightarrow> children_of d' = children_of d"
  by (auto simp: submitAiFeedback_start_def Let_def split: option.splits if_splits)

lemma children_addHistoryRow:
  "children_of (addHistoryRow l g b c d) =
     (case children_of d l of None \<Rightarrow> children_of d
      | Some cs \<Rightarrow> (children_of d)(l \<mapsto> remove_first_empty cs @
                       [HistoryRow (join_space g) (show_num b) (show_num c)]))"
  by (auto simp: addHistoryRow_def children_of_def fun_eq_iff Let_def split: option.splits)

lemma children_human_resume:
  "children_of (fst (submitHumanGuess_resume g reply d)) =
     (if succeeded_human reply then
        children_of (addHistoryRow ''humanHistory'' g
           (case reply of Reply data \<Rightarrow> hr_bulls data) (case reply of Reply data \<Rightarrow> hr_cows data) d)
      else children_of d)"
proof (cases reply)
  case NetworkError
  then show ?thesis by (simp add: submitHumanGuess_resume_def succeeded_human_def)
next
  case (Reply data)
  obtain d3 err where r: "showResultFlash g (hr_bulls data) (hr_cows data)
      (hide ''humanCard'' (clearOtpBoxes ''guessInputs''
         (addHistoryRow ''humanHistory'' g (hr_bulls data) (hr_cows data) d))) = (d3, err)"
    by (cases "showResultFlash g (hr_bulls data) (hr_cows data)
      (hide ''humanCard'' (clearOtpBoxes ''guessInputs''
         (addHistoryRow ''humanHistory'' g (hr_bulls data) (hr_cows data) d)))")
  have "children_of d3 = children_of (addHistoryRow ''humanHistory'' g (hr_bulls data) (hr_cows data) d)"
    using children_showResultFlash[of g "hr_bulls data" "hr_cows data"
      "hide ''humanCard'' (clearOtpBoxes ''guessInputs''
         (addHistoryRow ''humanHistory'' g (hr_bulls data) (hr_cows data) d))"] r by simp
  with Reply r show ?thesis
    by (cases err) (simp_all add: submitHumanGuess_resume_def succeeded_human_def Let_def)
qed

lemma children_ai_resume:
  "children_of (fst (submitAiFeedback_resume b c reply d)) =
     (if succeeded_ai reply then
        children_of (addHistoryRow ''aiHistory''
           (strip_spaces (case elems d ''aiGuessDisplay'' of None \<Rightarrow> ''????''
                          | Some aiDisplay \<Rightarrow> el_text aiDisplay)) b c d)
      else children_of d)"
proof (cases reply)
  case NetworkError
  then show ?thesis by (simp add: submitAiFeedback_resume_def succeeded_ai_def)
next
  case (Reply data)
  let ?g = "strip_spaces (case elems d ''aiGuessDisplay'' of None \<Rightarrow> ''????''
                          | Some aiDisplay \<Rightarrow> el_text aiDisplay)"
  let ?d1 = "addHistoryRow ''aiHistory'' ?g b c d"
  let ?r = "and_then (upd_strict ''aiBulls'' (\<lambda>el. el\<lparr>el_value := ''0''\<rparr>) ?d1)
                     (upd_strict ''aiCows'' (\<lambda>el. el\<lparr>el_value := ''0''\<rparr>))"
  obtain d2 err where r: "?r = (d2, err)" by (cases ?r)
  have "children_of (fst ?r) = children_of ?d1"
    by (simp add: children_and_then children_upd_strict)
  with r have "children_of d2 = children_of ?d1" by simp
  with Reply r show ?thesis
    by (cases err) (simp_all add: submitAiFeedback_resume_def succeeded_ai_def Let_def)
qed


lemma g_dom_step:
  "g_dom (step e s) =
     (case e of
        CallSubmitHumanGuess \<Rightarrow> fst (submitHumanGuess_start (g_dom s))
      | HumanReply k reply \<Rightarrow>
          if k < length (g_human_pending s)
          then fst (submitHumanGuess_resume (g_human_pending s ! k) reply (g_dom s))
          else g_dom s
      | CallSubmitAiFeedback \<Rightarrow>
          (case submitAiFeedback_start (g_dom s) of Inl _ \<Rightarrow> g_dom s | Inr r \<Rightarrow> fst r)
      | FeedbackReply k reply \<Rightarrow>
          if k < length (g_ai_pending s)
          then fst (submitAiFeedback_resume (fst (g_ai_pending s ! k)) (snd (g_ai_pending s ! k))
                      reply (g_dom s))
          else g_dom s
      | AiTurnTimer \<Rightarrow> hide ''resultFlash'' (g_dom s)
      | AiTurnReply reply \<Rightarrow>
          if g_turn_pending s > 0 then fst (triggerAiTurn_resume reply (g_dom s)) else g_dom s
      | RevealTick k \<Rightarrow>
          if k < length (g_reveals s) then fst (reveal_tick (g_reveals s ! k) (g_dom s))
          else g_dom s
      | ShowHumanTurn \<Rightarrow> showHumanTurn (g_dom s)
      | ShowWinner winner secret \<Rightarrow> fst (showWinner winner secret (g_dom s))
      | UserInput idx val \<Rightarrow> with_group ''guessInputs'' (on_input idx val) (g_dom s)
      | UserKey k \<Rightarrow> with_group ''guessInputs'' (press_key k) (g_dom s)
      | UserPaste idx clip \<Rightarrow> with_group ''guessInputs'' (on_paste idx clip) (g_dom s)
      | UserSelect i v \<Rightarrow> upd i (\<lambda>el. el\<lparr>el_value := v\<rparr>) (g_dom s))"
  by (cases e) (auto split: prod.splits sum.splits option.splits)

lemma children_step:
  "children_of (g_dom (step e s)) =
     (case e of
        HumanReply k reply \<Rightarrow>
          if k < length (g_human_pending s) \<and> succeeded_human reply
          then children_of (addHistoryRow ''humanHistory'' (g_human_pending s ! k)
                 (case reply of Reply data \<Rightarrow> hr_bulls data)
                 (case reply of Reply data \<Rightarrow> hr_cows data) (g_dom s))
          else children_of (g_dom s)
      | FeedbackReply k reply \<Rightarrow>
          if k < length (g_ai_pending s) \<and> succeeded_ai reply
          then children_of (addHistoryRow ''aiHistory''
                 (strip_spaces (case elems (g_dom s) ''aiGuessDisplay'' of None \<Rightarrow> ''????''
                                | Some aiDisplay \<Rightarrow> el_text aiDisplay))
                 (fst (g_ai_pending s ! k)) (snd (g_ai_pending s ! k)) (g_dom s))
          else children_of (g_dom s)
      | _ \<Rightarrow> children_of (g_dom s))"
proof (cases e)
  case CallSubmitAiFeedback
  then show ?thesis
    by (cases "submitAiFeedback_start (g_dom s)")
       (auto simp: g_dom_step simp del: step.simps dest: children_submitAiFeedback_start)
qed (simp_all add: g_dom_step children_human_resume children_ai_resume children_upd
      del: step.simps)

lemma rows_children: "rows i d = (case children_of d i of None \<Rightarrow> [] | Some cs \<Rightarrow> filter is_row cs)"
  by (simp add: rows_def children_of_def split: option.splits)

lemma filter_remove_first_empty: "filter is_row (remove_first_empty cs) = filter is_row cs"
  by (induction cs rule: remove_first_empty.induct) (simp_all add: is_row_def)

lemma rows_addHistoryRow:
  "rows i (addHistoryRow l g b c d) =
     (if i = l \<and> elems d l \<noteq> None
      then rows i d @ [HistoryRow (join_space g) (show_num b) (show_num c)] else rows i d)"
  by (auto simp: rows_children children_addHistoryRow filter_remove_first_empty is_row_def
      children_of_def split: option.splits)

lemma present_addHistoryRow:
  "(elems (addHistoryRow l g b c d) i = None) = (elems d i = None)"
  by (auto simp: addHistoryRow_def Let_def split: option.splits)

lemma present_children: "(elems d i = None) = (children_of d i = None)"
  by (simp add: children_of_def)

lemma present_step: "(elems (g_dom (step e s)) i = None) = (elems (g_dom s) i = None)"
  unfolding present_children children_step
  by (cases e) (auto simp: present_children[symmetric] present_addHistoryRow)

lemma rows_step_human:
  "rows ''humanHistory'' (g_dom (step e s)) =
     rows ''humanHistory'' (g_dom s) @
     (case e of
        HumanReply k reply \<Rightarrow>
          if k < length (g_human_pending s) \<and> succeeded_human reply \<and>
             elems (g_dom s) ''humanHistory'' \<noteq> None
          then [HistoryRow (join_space (g_human_pending s ! k))
                  (show_num (case reply of Reply data \<Rightarrow> hr_bulls data))
                  (show_num (case reply of Reply data \<Rightarrow> hr_cows data))]
          else []
      | _ \<Rightarrow> [])"
  unfolding rows_children[of _ "g_dom (step e s)"] children_step
  by (cases e) (auto simp: rows_children[symmetric] rows_addHistoryRow)

lemma rows_step_ai:
  "rows ''aiHistory'' (g_dom (step e s)) =
     rows ''aiHistory'' (g_dom s) @
     (case e of
        FeedbackReply k reply \<Rightarrow>
          if k < length (g_ai_pending s) \<and> succeeded_ai reply \<and>
             elems (g_dom s) ''aiHistory'' \<noteq> None
          then [HistoryRow
                  (join_space (strip_spaces
                     (case elems (g_dom s) ''aiGuessDisplay'' of None \<Rightarrow> ''????''
                      | Some aiDisplay \<Rightarrow> el_text aiDisplay)))
                  (show_num (fst (g_ai_pending s ! k))) (show_num (snd (g_ai_pending s ! k)))]
          else []
      | _ \<Rightarrow> [])"
  unfolding rows_children[of _ "g_dom (step e s)"] children_step
  by (cases e) (auto simp: rows_children[symmetric] rows_addHistoryRow)

lemma ok_step_human:
  "g_human_ok (step e s) = g_human_ok s +
     (case e of HumanReply k reply \<Rightarrow>
        if k < length (g_human_pending s) \<and> succeeded_human reply then 1 else 0 | _ \<Rightarrow> 0)"
  by (cases e) (auto split: prod.splits sum.splits option.splits)

lemma ok_step_ai:
  "g_ai_ok (step e s) = g_ai_ok s +
     (case e of FeedbackReply k reply \<Rightarrow>
        if k < length (g_ai_pending s) \<and> succeeded_ai reply then 1 else 0 | _ \<Rightarrow> 0)"
  by (cases e) (auto split: prod.splits sum.splits option.splits)

lemma run_Cons: "run (e # es) s = run es (step e s)"
  by (simp add: run_def)

lemma run_counts:
  "elems (g_dom s) ''humanHistory'' \<noteq> None \<Longrightarrow> elems (g_dom s) ''aiHistory'' \<noteq> None \<Longrightarrow>
   row_count ''humanHistory'' (g_dom (run es s)) + g_human_ok s =
     row_count ''humanHistory'' (g_dom s) + g_human_ok (run es s) \<and>
   row_count ''aiHistory'' (g_dom (run es s)) + g_ai_ok s =
     row_count ''aiHistory'' (g_dom s) + g_ai_ok (run es s)"
proof (induction es arbitrary: s)
  case Nil
  then show ?case by (simp add: run_def)
next
  case (Cons e es)
  have p: "elems (g_dom (step e s)) ''humanHistory'' \<noteq> None"
    "elems (g_dom (step e s)) ''aiHistory'' \<noteq> None"
    using Cons.prems by (simp_all add: present_step)
  have h: "row_count ''humanHistory'' (g_dom (step e s)) + g_human_ok s =
           row_count ''humanHistory'' (g_dom s) + g_human_ok (step e s)"
    using Cons.prems(1) unfolding row_count_def rows_step_human ok_step_human
    by (cases e) auto
  have a: "row_count ''aiHistory'' (g_dom (step e s)) + g_ai_ok s =
           row_count ''aiHistory'' (g_dom s) + g_ai_ok (step e s)"
    using Cons.prems(2) unfolding row_count_def rows_step_ai ok_step_ai
    by (cases e) auto
  from Cons.IH[OF p] h a show ?case by (simp add: run_Cons)
qed

lemma present_run: "(elems (g_dom (run es s)) i = None) = (elems (g_dom s) i = None)"
  by (induction es arbitrary: s) (simp_all add: run_def present_step del: step.simps)

text \<open>
  Claim C3, as stated, fails: the row is appended before the reply is looked at for a
  win, so the winning guess is logged too. On the sample game page the human submits
  \<open>1234\<close> and the reply says \<^verbatim>\<open>success\<close> and \<^verbatim>\<open>won\<close>: the human's log then has one row,
  while no successful non-winning submission has been made.
\<close>

theorem winning_guess_is_logged_counterexample:
  "row_count ''humanHistory'' (g_dom won_game) = 1 \<and>
   g_human_nonwin won_game = 0 \<and>
   g_human_ok won_game = 1 \<and>
   row_count ''humanHistory'' (g_dom won_game) \<noteq> g_human_nonwin won_game"
  by code_simp

text \<open>
  Claim C3, amended. On a page that has both history lists, after any sequence of
  events the row count of each actor's log is its row count at the start plus the number
  of that actor's submissions answered with \<^verbatim>\<open>success\<close> so far, winning or not; and the
  reply to a pending submission appends exactly one row, holding the submitted guess and
  the two counts, when it says \<^verbatim>\<open>success\<close>, and leaves the rows as they are otherwise.
\<close>

theorem history_rows_count_successful_submissions:
  assumes "elems d ''humanHistory'' \<noteq> None" and "elems d ''aiHistory'' \<noteq> None"
  shows "row_count ''humanHistory'' (g_dom (run es (start_game d))) =
           row_count ''humanHistory'' d + g_human_ok (run es (start_game d)) \<and>
         row_count ''aiHistory'' (g_dom (run es (start_game d))) =
           row_count ''aiHistory'' d + g_ai_ok (run es (start_game d)) \<and>
         rows ''humanHistory'' (g_dom (step (HumanReply k (Reply hdata)) (run es (start_game d)))) =
           rows ''humanHistory'' (g_dom (run es (start_game d))) @
           (if k < length (g_human_pending (run es (start_game d))) \<and> hr_success hdata
            then [HistoryRow (join_space (g_human_pending (run es (start_game d)) ! k))
                    (show_num (hr_bulls hdata)) (show_num (hr_cows hdata))]
            else []) \<and>
         rows ''aiHistory'' (g_dom (step (FeedbackReply j (Reply fdata)) (run es (start_game d)))) =
           rows ''aiHistory'' (g_dom (run es (start_game d))) @
           (if j < length (g_ai_pending (run es (start_game d))) \<and> fr_success fdata
            then [HistoryRow
                    (join_space (strip_spaces
                       (case elems (g_dom (run es (start_game d))) ''aiGuessDisplay'' of
                          None \<Rightarrow> ''????'' | Some aiDisplay \<Rightarrow> el_text aiDisplay)))
                    (show_num (fst (g_ai_pending (run es (start_game d)) ! j)))
                    (show_num (snd (g_ai_pending (run es (start_game d)) ! j)))]
            else [])"
proof -
  let ?s = "run es (start_game d)"
  have p0: "elems (g_dom (start_game d)) ''humanHistory'' \<noteq> None"
    "elems (g_dom (start_game d)) ''aiHistory'' \<noteq> None"
    using assms by (simp_all add: start_game_def)
  have c: "row_count ''humanHistory'' (g_dom ?s) = row_count ''humanHistory'' d + g_human_ok ?s"
    "row_count ''aiHistory'' (g_dom ?s) = row_count ''aiHistory'' d + g_ai_ok ?s"
    using run_counts[OF p0, of es] by (simp_all add: start_game_def)
  have p: "elems (g_dom ?s) ''humanHistory'' \<noteq> None" "elems (g_dom ?s) ''aiHistory'' \<noteq> None"
    using p0 by (simp_all add: present_run)
  have h: "rows ''humanHistory'' (g_dom (step (HumanReply k (Reply hdata)) ?s)) =
           rows ''humanHistory'' (g_dom ?s) @
           (if k < length (g_human_pending ?s) \<and> hr_success hdata
            then [HistoryRow (join_space (g_human_pending ?s ! k))
                    (show_num (hr_bulls hdata)) (show_num (hr_cows hdata))]
            else [])"
    unfolding rows_step_human using p(1) by (simp add: succeeded_human_def)
  have a: "rows ''aiHistory'' (g_dom (step (FeedbackReply j (Reply fdata)) ?s)) =
           rows ''aiHistory'' (g_dom ?s) @
           (if j < length (g_ai_pending ?s) \<and> fr_success fdata
            then [HistoryRow
                    (join_space (strip_spaces
                       (case elems (g_dom ?s) ''aiGuessDisplay'' of
                          None \<Rightarrow> ''????'' | Some aiDisplay \<Rightarrow> el_text aiDisplay)))
                    (show_num (fst (g_ai_pending ?s ! j))) (show_num (snd (g_ai_pending ?s ! j)))]
            else [])"
    unfolding rows_step_ai using p(2) by (simp add: succeeded_ai_def)
  from c h a show ?thesis by blast
qed

theorem history_rows_count_successful_submissions_witness:
  "row_count ''humanHistory'' game_page = 0 \<and>
   row_count ''humanHistory'' (g_dom won_game) = 1 \<and>
   g_human_ok won_game = 1 \<and>
   row_count ''aiHistory'' (g_dom won_game) = 0 \<and>
   g_ai_ok won_game = 0"
proof -
  have h1: "elems game_page ''humanHistory'' \<noteq> None" by (simp add: game_page_def)
  have h2: "elems game_page ''aiHistory'' \<noteq> None" by (simp add: game_page_def)
  have z: "row_count ''humanHistory'' game_page = 0" "row_count ''aiHistory'' game_page = 0"
    by code_simp+
  have k: "g_human_ok won_game = 1" "g_ai_ok won_game = 0" by code_simp+
  note t = history_rows_count_successful_submissions [OF h1 h2,
      of "[CallSubmitHumanGuess, HumanReply 0 winning_reply]" 0 winning_data 0 feedback_ok_data,
      folded won_game_def]
  from t z k show ?thesis by simp
qed

section \<open>The reveal of the AI's guess\<close>

lemma reveal_ticks_None: "reveal_ticks n None d = (d, None)"
  by (cases n) simp_all

lemma reveal_ticks_add:
  "reveal_ticks (m + n) r d = (case reveal_ticks m r d of (d', r') \<Rightarrow> reveal_ticks n r' d')"
proof (induction m r d rule: reveal_ticks.induct)
  case (1 r d)
  then show ?case by simp
next
  case (2 n' d)
  then show ?case by (simp add: reveal_ticks_None)
next
  case (3 n' rv d)
  then show ?case by (simp split: prod.splits)
qed

lemma text_upd:
  "elems d i \<noteq> None \<Longrightarrow> map_option el_text (elems (upd i (\<lambda>el. el\<lparr>el_text := t\<rparr>) d) i) = Some t"
  by (auto simp: upd_def)

lemma present_upd: "(elems (upd i f d) j = None) = (elems d j = None)"
  by (auto simp: upd_def split: option.splits)

lemma trims: "js_trim ''_ _ _ '' = ''_ _ _''" "js_trim ''_ _ '' = ''_ _''" "js_trim ''_ '' = ''_''"
  by (simp_all add: js_trim_def is_space_def)

lemma four_ticks:
  assumes p: "elems d ''aiGuessDisplay'' \<noteq> None"
  shows "map_option el_text (elems (fst (reveal_ticks k (Some \<lparr>rv_digits = [a, b, c, e], rv_i = 0\<rparr>) d)) ''aiGuessDisplay'') =
      (if k = 0 then map_option el_text (elems d ''aiGuessDisplay'')
       else Some (join_space (take k [a, b, c, e] @ replicate (4 - k) CHR ''_''))) \<and>
     snd (reveal_ticks k (Some \<lparr>rv_digits = [a, b, c, e], rv_i = 0\<rparr>) d) =
       (if k < 4 then Some \<lparr>rv_digits = [a, b, c, e], rv_i = k\<rparr> else None)"
proof -
  have k4: "map_option el_text (elems (fst (reveal_ticks 4 (Some \<lparr>rv_digits = [a, b, c, e], rv_i = 0\<rparr>) d)) ''aiGuessDisplay'') =
       Some (join_space [a, b, c, e]) \<and>
     snd (reveal_ticks 4 (Some \<lparr>rv_digits = [a, b, c, e], rv_i = 0\<rparr>) d) = None"
    using p by (simp add: numeral_eq_Suc reveal_tick_def Let_def trims text_upd present_upd)
  consider "k = 0" | "k = 1" | "k = 2" | "k = 3" | "k \<ge> 4" by linarith
  then show ?thesis
  proof cases
    case 1
    then show ?thesis by simp
  next
    case 2
    then show ?thesis using p
      by (simp add: numeral_eq_Suc reveal_tick_def Let_def trims text_upd present_upd)
  next
    case 3
    then show ?thesis using p
      by (simp add: numeral_eq_Suc reveal_tick_def Let_def trims text_upd present_upd)
  next
    case 4
    then show ?thesis using p
      by (simp add: numeral_eq_Suc reveal_tick_def Let_def trims text_upd present_upd)
  next
    case 5
    then obtain m where m: "k = 4 + m" using le_Suc_ex by blast
    obtain d4 where d4: "reveal_ticks 4 (Some \<lparr>rv_digits = [a, b, c, e], rv_i = 0\<rparr>) d = (d4, None)"
      using k4 by (cases "reveal_ticks 4 (Some \<lparr>rv_digits = [a, b, c, e], rv_i = 0\<rparr>) d") auto
    have "reveal_ticks k (Some \<lparr>rv_digits = [a, b, c, e], rv_i = 0\<rparr>) d = (d4, None)"
      unfolding m reveal_ticks_add d4 by (simp add: reveal_ticks_None)
    with k4 d4 5 show ?thesis by simp
  qed
qed


lemma elems_upd_other: "i \<noteq> j \<Longrightarrow> elems (upd i f d) j = elems d j"
  by (simp add: upd_def split: option.splits)

lemma display_upd:
  "(\<And>e. el_display (f e) = el_display e) \<Longrightarrow>
   map_option el_display (elems (upd i f d) j) = map_option el_display (elems d j)"
  by (auto simp: upd_def split: option.splits)

lemma elems_reveal_tick_other:
  "j \<noteq> ''aiGuessDisplay'' \<Longrightarrow> elems (fst (reveal_tick rv d)) j = elems d j"
  by (simp add: reveal_tick_def Let_def elems_upd_other)

lemma elems_reveal_ticks_other:
  "j \<noteq> ''aiGuessDisplay'' \<Longrightarrow> elems (fst (reveal_ticks k r d)) j = elems d j"
proof (induction k r d rule: reveal_ticks.induct)
  case (3 n rv d)
  obtain d' r' where t: "reveal_tick rv d = (d', r')" by (cases "reveal_tick rv d")
  with elems_reveal_tick_other[OF 3(2), of rv d] have "elems d' j = elems d j" by simp
  with 3 t show ?case by simp
qed simp_all

lemma displayAiGuess_present:
  assumes "elems d ''aiGuessDisplay'' \<noteq> None"
  shows "snd (displayAiGuess guess d) = [SetInterval \<lparr>rv_digits = guess, rv_i = 0\<rparr> 180]"
    and "map_option el_text (elems (fst (displayAiGuess guess d)) ''aiGuessDisplay'') = Some ''_ _ _ _''"
    and "map_option el_display (elems (fst (displayAiGuess guess d)) ''aiCard'') =
           map_option (\<lambda>_. []) (elems d ''aiCard'')"
    and "elems (fst (displayAiGuess guess d)) ''aiGuessDisplay'' \<noteq> None"
    and "j \<noteq> ''aiGuessDisplay'' \<Longrightarrow> j \<noteq> ''aiCard'' \<Longrightarrow>
           elems (fst (displayAiGuess guess d)) j = elems d j"
  using assms
  by (auto simp: displayAiGuess_def Let_def upd_def show_el_def split: option.splits)

text \<open>
  Claim C4, as stated, fails in its second half: \<^verbatim>\<open>displayAiGuess\<close> shows the AI card in
  the same call that starts the reveal, and nothing holds \<^verbatim>\<open>submitAiFeedback\<close> back. On
  the sample game page, as soon as the AI's guess \<open>5678\<close> has arrived, and before any
  tick, the display reads four placeholders, the card that was hidden is displayed, the
  interval is live with no digit shown, and a feedback submission goes out to the
  service.
\<close>

theorem feedback_before_reveal_counterexample:
  "map_option el_display (elems game_page ''aiCard'') = Some ''none'' \<and>
   map_option el_display (elems (g_dom ai_guess_arrived) ''aiCard'') = Some [] \<and>
   map_option el_text (elems (g_dom ai_guess_arrived) ''aiGuessDisplay'') = Some ''_ _ _ _'' \<and>
   g_reveals ai_guess_arrived = [\<lparr>rv_digits = ''5678'', rv_i = 0\<rparr>] \<and>
   g_effects early_feedback =
     [Fetch ''/ai-turn'' ''GET'' None,
      SetInterval \<lparr>rv_digits = ''5678'', rv_i = 0\<rparr> 180,
      Fetch ''/ai-feedback'' ''POST'' (Some (JObj [(''bulls'', JNum 1), (''cows'', JNum 1)]))]"
  by code_simp

text \<open>
  Claim C4, amended. After a successful reply to the request for the AI's turn, on a
  page that has the guess display, an interval of period 180 ms is started for the
  returned 4-character guess; after \<open>k\<close> of its ticks the display reads the first \<open>k\<close>
  characters of the guess followed by \<open>4 - k\<close> placeholders, space-separated, and the
  interval lives until its fourth tick. The feedback controls do not wait for the
  reveal: for every \<open>k\<close> the AI card, where the page has it, is displayed, and a call
  of \<^verbatim>\<open>submitAiFeedback\<close> with the selects on the page and a sum not above 4 sends its
  request.
\<close>

theorem reveal_by_interval_card_shown_at_once:
  assumes p: "elems d ''aiGuessDisplay'' \<noteq> None"
    and ok: "at_success data" and len: "length (at_ai_guess data) = 4"
  shows "let guess = at_ai_guess data;
             rv = \<lparr>rv_digits = guess, rv_i = 0\<rparr>;
             d0 = fst (triggerAiTurn (Reply data) d);
             r = reveal_ticks k (Some rv) d0
         in snd (triggerAiTurn (Reply data) d) = [Fetch ''/ai-turn'' ''GET'' None, SetInterval rv 180] \<and>
            map_option el_text (elems (fst r) ''aiGuessDisplay'') =
              Some (join_space (take k guess @ replicate (4 - k) CHR ''_'')) \<and>
            snd r = (if k < 4 then Some (rv\<lparr>rv_i := k\<rparr>) else None) \<and>
            map_option el_display (elems (fst r) ''aiCard'') = map_option (\<lambda>_. []) (elems d ''aiCard'') \<and>
            (\<forall>eb ec. elems d ''aiBulls'' = Some eb \<and> elems d ''aiCows'' = Some ec \<and>
                \<not> js_gt (js_add (parseInt (el_value eb)) (parseInt (el_value ec))) (Num 4) \<longrightarrow>
                map_sum (\<lambda>err. err) (\<lambda>x. fst (snd x)) (submitAiFeedback_start (fst r)) =
                  Inr [Fetch ''/ai-feedback'' ''POST''
                         (Some (JObj [(''bulls'', json_of_num (parseInt (el_value eb))),
                                     (''cows'', json_of_num (parseInt (el_value ec)))]))])"
proof -
  obtain a b c e where g: "at_ai_guess data = [a, b, c, e]"
    using len by (auto simp: length_Suc_conv numeral_eq_Suc)
  define d0 where "d0 = fst (displayAiGuess [a, b, c, e] d)"
  have t: "triggerAiTurn (Reply data) d = (d0, [Fetch ''/ai-turn'' ''GET'' None,
             SetInterval \<lparr>rv_digits = [a, b, c, e], rv_i = 0\<rparr> 180])"
    using ok g displayAiGuess_present(1)[OF p, of "[a, b, c, e]"]
    by (cases "displayAiGuess [a, b, c, e] d")
       (simp add: triggerAiTurn_def triggerAiTurn_resume_def d0_def)
  have p0: "elems d0 ''aiGuessDisplay'' \<noteq> None"
    unfolding d0_def by (rule displayAiGuess_present(4)[OF p])
  have t0: "map_option el_text (elems d0 ''aiGuessDisplay'') = Some ''_ _ _ _''"
    unfolding d0_def by (rule displayAiGuess_present(2)[OF p])
  have c0: "map_option el_display (elems d0 ''aiCard'') = map_option (\<lambda>_. []) (elems d ''aiCard'')"
    unfolding d0_def by (rule displayAiGuess_present(3)[OF p])
  let ?r = "reveal_ticks k (Some \<lparr>rv_digits = [a, b, c, e], rv_i = 0\<rparr>) d0"
  have shown: "map_option el_text (elems (fst ?r) ''aiGuessDisplay'') =
        Some (join_space (take k [a, b, c, e] @ replicate (4 - k) CHR ''_''))"
    using four_ticks[OF p0, of k a b c e] t0 by (cases "k = 0") (simp_all add: numeral_eq_Suc)
  have live: "snd ?r = (if k < 4 then Some \<lparr>rv_digits = [a, b, c, e], rv_i = k\<rparr> else None)"
    using four_ticks[OF p0, of k a b c e] by simp
  have card: "map_option el_display (elems (fst ?r) ''aiCard'') = map_option (\<lambda>_. []) (elems d ''aiCard'')"
    using c0 by (simp add: elems_reveal_ticks_other)
  have other: "j \<noteq> ''aiGuessDisplay'' \<Longrightarrow> j \<noteq> ''aiCard'' \<Longrightarrow> elems (fst ?r) j = elems d j" for j
    unfolding d0_def by (simp add: elems_reveal_ticks_other displayAiGuess_present(5)[OF p])
  have sent: "\<forall>eb ec. elems d ''aiBulls'' = Some eb \<and> elems d ''aiCows'' = Some ec \<and>
                \<not> js_gt (js_add (parseInt (el_value eb)) (parseInt (el_value ec))) (Num 4) \<longrightarrow>
                map_sum (\<lambda>err. err) (\<lambda>x. fst (snd x)) (submitAiFeedback_start (fst ?r)) =
                  Inr [Fetch ''/ai-feedback'' ''POST''
                         (Some (JObj [(''bulls'', json_of_num (parseInt (el_value eb))),
                                     (''cows'', json_of_num (parseInt (el_value ec)))]))]"
    by (simp add: submitAiFeedback_start_def other Let_def)
  from t shown live card sent show ?thesis by (simp add: g)
qed

theorem reveal_by_interval_card_shown_at_once_witness:
  "elems game_page ''aiGuessDisplay'' \<noteq> None \<and>
   map_option el_text
     (elems (fst (reveal_ticks 2 (Some \<lparr>rv_digits = ''5678'', rv_i = 0\<rparr>)
                    (fst (triggerAiTurn ai_guess_reply game_page)))) ''aiGuessDisplay'') =
     Some ''5 6 _ _'' \<and>
   map_option el_display
     (elems (fst (reveal_ticks 2 (Some \<lparr>rv_digits = ''5678'', rv_i = 0\<rparr>)
                    (fst (triggerAiTurn ai_guess_reply game_page)))) ''aiCard'') = Some [] \<and>
   map_sum (\<lambda>err. err) (\<lambda>x. fst (snd x))
     (submitAiFeedback_start
        (fst (reveal_ticks 2 (Some \<lparr>rv_digits = ''5678'', rv_i = 0\<rparr>)
                (fst (triggerAiTurn ai_guess_reply game_page))))) =
     Inr [Fetch ''/ai-feedback'' ''POST'' (Some (JObj [(''bulls'', JNum 1), (''cows'', JNum 1)]))]"
proof -
  have h1: "elems game_page ''aiGuessDisplay'' \<noteq> None" by (simp add: game_page_def)
  have h2: "at_success ai_guess_data" by (simp add: ai_guess_data_def)
  have h3: "length (at_ai_guess ai_guess_data) = 4" by (simp add: ai_guess_data_def)
  have g: "at_ai_guess ai_guess_data = ''5678''" by (simp add: ai_guess_data_def)
  have c: "elems game_page ''aiCard'' = Some (blank\<lparr>el_display := ''none''\<rparr>)"
    by (simp add: game_page_def)
  have j: "join_space (take 2 ''5678'' @ replicate (4 - 2) CHR ''_'') = ''5 6 _ _''"
    by code_simp
  note t = reveal_by_interval_card_shown_at_once [OF h1 h2 h3, of 2, folded ai_guess_reply_def,
      unfolded Let_def g]
  note a = t [THEN conjunct2, THEN conjunct1, unfolded j]
  note b = t [THEN conjunct2, THEN conjunct2, THEN conjunct2, THEN conjunct1, unfolded c]
  note f = t [THEN conjunct2, THEN conjunct2, THEN conjunct2, THEN conjunct2, rule_format,
      of "blank\<lparr>el_value := ''1''\<rparr>" "blank\<lparr>el_value := ''1''\<rparr>"]
  have s1: "elems game_page ''aiBulls'' = Some (blank\<lparr>el_value := ''1''\<rparr>)"
    "elems game_page ''aiCows'' = Some (blank\<lparr>el_value := ''1''\<rparr>)"
    by (simp_all add: game_page_def)
  have p1: "parseInt ''1'' = Num 1"
    by (simp add: parseInt_def is_space_def is_digit_def digits_val_def digit_val_def Let_def)
  have v: "el_value (blank\<lparr>el_value := ''1''\<rparr>) = ''1''" by simp
  have gd: "\<not> js_gt (js_add (Num 1) (Num 1)) (Num 4)" by (simp add: js_gt_def js_add_def)
  have n: "json_of_num (Num 1) = JNum 1" by (simp add: json_of_num_def)
  from f [unfolded v p1 n] s1 gd
  have e: "map_sum (\<lambda>err. err) (\<lambda>x. fst (snd x))
     (submitAiFeedback_start
        (fst (reveal_ticks 2 (Some \<lparr>rv_digits = ''5678'', rv_i = 0\<rparr>)
                (fst (triggerAiTurn ai_guess_reply game_page))))) =
     Inr [Fetch ''/ai-feedback'' ''POST'' (Some (JObj [(''bulls'', JNum 1), (''cows'', JNum 1)]))]"
    by blast
  from h1 a b e show ?thesis by simp
qed

section \<open>The guess recorded in the AI's history\<close>

lemma strip_join_space:
  "\<forall>ch \<in> set xs. \<not> is_space ch \<Longrightarrow> strip_spaces (join_space xs) = xs"
  by (induction xs rule: join_space.induct) (auto simp: strip_spaces_def is_space_def)

lemma digit_not_space: "is_digit ch \<Longrightarrow> \<not> is_space ch"
  by (auto simp: is_digit_def is_space_def)

lemma children_reveal_ticks: "children_of (fst (reveal_ticks k r d)) = children_of d"
proof (induction k r d rule: reveal_ticks.induct)
  case (3 n rv d)
  obtain d' r' where t: "reveal_tick rv d = (d', r')" by (cases "reveal_tick rv d")
  with children_reveal_tick[of rv d] have "children_of d' = children_of d" by simp
  with 3 t show ?case by simp
qed simp_all

lemma rows_ai_resume:
  "elems d ''aiHistory'' \<noteq> None \<Longrightarrow> fr_success data \<Longrightarrow>
   rows ''aiHistory'' (fst (submitAiFeedback_resume b c (Reply data) d)) =
     rows ''aiHistory'' d @
     [HistoryRow (join_space (strip_spaces
                    (case elems d ''aiGuessDisplay'' of None \<Rightarrow> ''????''
                     | Some aiDisplay \<Rightarrow> el_text aiDisplay)))
        (show_num b) (show_num c)]"
  unfolding rows_children[of _ "fst (submitAiFeedback_resume b c (Reply data) d)"] children_ai_resume
  by (simp add: succeeded_ai_def rows_children[symmetric] rows_addHistoryRow)

lemma elems_clearError_other: "i \<noteq> j \<Longrightarrow> elems (clearError i d) j = elems d j"
  by (simp add: clearError_def elems_upd_other)

lemma elems_setButtonLoading_other: "i \<noteq> j \<Longrightarrow> elems (setButtonLoading i l d) j = elems d j"
  by (auto simp: setButtonLoading_def Let_def split: option.splits)

text \<open>
  Claim C10, as stated, fails on one point: the display is read when the reply to the
  feedback request is handled, after the two \<^verbatim>\<open>await\<close>s, not when feedback is submitted.
  On the sample game page feedback is submitted after the third tick, while the display
  reads \<open>5 6 7 _\<close> and the interval is live; the fourth tick comes while the request is
  in flight; the row appended at the reply holds \<open>5 6 7 8\<close>, with no placeholder.
\<close>

theorem late_reply_records_full_guess_counterexample:
  "g_reveals feedback_sent = [\<lparr>rv_digits = ''5678'', rv_i = 3\<rparr>] \<and>
   map_option el_text (elems (g_dom feedback_sent) ''aiGuessDisplay'') = Some ''5 6 7 _'' \<and>
   g_ai_pending feedback_sent = [(Num 1, Num 1)] \<and>
   g_effects feedback_sent =
     [Fetch ''/ai-turn'' ''GET'' None,
      SetInterval \<lparr>rv_digits = ''5678'', rv_i = 0\<rparr> 180,
      Fetch ''/ai-feedback'' ''POST'' (Some (JObj [(''bulls'', JNum 1), (''cows'', JNum 1)]))] \<and>
   rows ''aiHistory'' (g_dom late_reply) = [HistoryRow ''5 6 7 8'' ''1'' ''1'']"
  by code_simp

text \<open>
  Claim C10, amended. The guess of the row appended to the AI's history is the text
  of the guess display with white space removed (or \<open>????\<close> without a display), read
  when the successful reply to the feedback request is handled; it is not taken from the
  reply to the request for the AI's turn. When a 4-digit guess is being revealed and
  only \<open>k < 4\<close> ticks have run by the time feedback is submitted and answered, the row
  holds the first \<open>k\<close> digits followed by \<open>4 - k\<close> underscores.
\<close>

theorem ai_history_records_displayed_text:
  assumes hist: "elems d ''aiHistory'' \<noteq> None"
    and disp: "elems d ''aiGuessDisplay'' \<noteq> None"
    and bulls: "elems d ''aiBulls'' = Some eb" and cows: "elems d ''aiCows'' = Some ec"
    and guard: "\<not> js_gt (js_add (parseInt (el_value eb)) (parseInt (el_value ec))) (Num 4)"
    and len: "length guess = 4" and digits: "\<forall>ch \<in> set guess. is_digit ch"
    and k: "k < 4" and ok: "fr_success data"
  shows "let shown = (\<lambda>d'::dom. strip_spaces (case elems d' ''aiGuessDisplay'' of None \<Rightarrow> ''????''
                                           | Some aiDisplay \<Rightarrow> el_text aiDisplay));
             dk = fst (reveal_ticks k (Some \<lparr>rv_digits = guess, rv_i = 0\<rparr>)
                         (fst (displayAiGuess guess d)))
         in (\<forall>d' b c. elems d' ''aiHistory'' \<noteq> None \<longrightarrow>
               rows ''aiHistory'' (fst (submitAiFeedback_resume b c (Reply data) d')) =
                 rows ''aiHistory'' d' @ [HistoryRow (join_space (shown d')) (show_num b) (show_num c)]) \<and>
            shown dk = take k guess @ replicate (4 - k) CHR ''_'' \<and>
            \<not> isl (submitAiFeedback (Reply data) dk) \<and>
            rows ''aiHistory'' (fst (projr (submitAiFeedback (Reply data) dk))) =
              rows ''aiHistory'' d @
              [HistoryRow (join_space (take k guess @ replicate (4 - k) CHR ''_''))
                 (show_num (parseInt (el_value eb))) (show_num (parseInt (el_value ec)))]"
proof -
  define shown where "shown = (\<lambda>d'::dom. strip_spaces (case elems d' ''aiGuessDisplay'' of None \<Rightarrow> ''????''
                                           | Some aiDisplay \<Rightarrow> el_text aiDisplay))"
  define d0 where "d0 = fst (displayAiGuess guess d)"
  define dk where "dk = fst (reveal_ticks k (Some \<lparr>rv_digits = guess, rv_i = 0\<rparr>) d0)"
  obtain a b c e where g: "guess = [a, b, c, e]"
    using len by (auto simp: length_Suc_conv numeral_eq_Suc)
  have p0: "elems d0 ''aiGuessDisplay'' \<noteq> None"
    unfolding d0_def by (rule displayAiGuess_present(4)[OF disp])
  have t0: "map_option el_text (elems d0 ''aiGuessDisplay'') = Some ''_ _ _ _''"
    unfolding d0_def by (rule displayAiGuess_present(2)[OF disp])
  have tk: "map_option el_text (elems dk ''aiGuessDisplay'') =
        Some (join_space (take k guess @ replicate (4 - k) CHR ''_''))"
    unfolding dk_def g using four_ticks[OF p0, of k a b c e] t0
    by (cases "k = 0") (simp_all add: numeral_eq_Suc)
  have nosp: "\<forall>ch \<in> set (take k guess @ replicate (4 - k) CHR ''_''). \<not> is_space ch"
  proof
    fix ch assume "ch \<in> set (take k guess @ replicate (4 - k) CHR ''_'')"
    then consider "ch \<in> set guess" | "ch = CHR ''_''"
      by (auto dest: in_set_takeD)
    then show "\<not> is_space ch"
    proof cases
      case 1
      with digits show ?thesis by (simp add: digit_not_space)
    next
      case 2
      then show ?thesis by (simp add: is_space_def)
    qed
  qed
  have sk: "shown dk = take k guess @ replicate (4 - k) CHR ''_''"
    using tk strip_join_space[OF nosp] by (auto simp: shown_def)
  have other: "j \<noteq> ''aiGuessDisplay'' \<Longrightarrow> j \<noteq> ''aiCard'' \<Longrightarrow> elems dk j = elems d j" for j
    unfolding dk_def d0_def
    by (simp add: elems_reveal_ticks_other displayAiGuess_present(5)[OF disp])
  have bk: "elems dk ''aiBulls'' = Some eb" "elems dk ''aiCows'' = Some ec"
    "elems dk ''aiHistory'' \<noteq> None"
    using bulls cows hist by (simp_all add: other)
  have rk: "rows ''aiHistory'' dk = rows ''aiHistory'' d"
    unfolding rows_def by (simp add: other)
  define d1 where "d1 = setButtonLoading ''btnAiFeedback'' True (clearError ''aiError'' dk)"
  have st: "submitAiFeedback_start dk =
      Inr (d1, [Fetch ''/ai-feedback'' ''POST''
                  (Some (JObj [(''bulls'', json_of_num (parseInt (el_value eb))),
                              (''cows'', json_of_num (parseInt (el_value ec)))]))],
           Some (parseInt (el_value eb), parseInt (el_value ec)))"
    using bk guard by (simp add: submitAiFeedback_start_def d1_def Let_def)
  have e1: "elems d1 ''aiGuessDisplay'' = elems dk ''aiGuessDisplay''"
    "elems d1 ''aiHistory'' = elems dk ''aiHistory''"
    by (simp_all add: d1_def elems_setButtonLoading_other elems_clearError_other)
  have s1: "shown d1 = shown dk" by (simp add: shown_def e1)
  have r1: "rows ''aiHistory'' d1 = rows ''aiHistory'' dk" by (simp add: rows_def e1)
  have h1: "elems d1 ''aiHistory'' \<noteq> None" using bk(3) by (simp add: e1)
  have gen: "\<forall>d' b c. elems d' ''aiHistory'' \<noteq> None \<longrightarrow>
               rows ''aiHistory'' (fst (submitAiFeedback_resume b c (Reply data) d')) =
                 rows ''aiHistory'' d' @ [HistoryRow (join_space (shown d')) (show_num b) (show_num c)]"
    using rows_ai_resume[OF _ ok] by (simp add: shown_def)
  obtain d2 effs where res: "submitAiFeedback_resume (parseInt (el_value eb)) (parseInt (el_value ec))
      (Reply data) d1 = (d2, effs)"
    by (cases "submitAiFeedback_resume (parseInt (el_value eb)) (parseInt (el_value ec)) (Reply data) d1")
  have whole: "submitAiFeedback (Reply data) dk = Inr (d2, 
      Fetch ''/ai-feedback'' ''POST''
                  (Some (JObj [(''bulls'', json_of_num (parseInt (el_value eb))),
                              (''cows'', json_of_num (parseInt (el_value ec)))])) # effs)"
    by (simp add: submitAiFeedback_def st res)
  have "rows ''aiHistory'' d2 = rows ''aiHistory'' d1 @
      [HistoryRow (join_space (shown d1)) (show_num (parseInt (el_value eb)))
         (show_num (parseInt (el_value ec)))]"
    using gen h1 res by (metis fst_conv)
  then have fin: "rows ''aiHistory'' (fst (projr (submitAiFeedback (Reply data) dk))) =
      rows ''aiHistory'' d @
      [HistoryRow (join_space (take k guess @ replicate (4 - k) CHR ''_''))
         (show_num (parseInt (el_value eb))) (show_num (parseInt (el_value ec)))]"
    by (simp add: whole s1 sk r1 rk)
  have "\<not> isl (submitAiFeedback (Reply data) dk)" by (simp add: whole)
  with gen sk fin show ?thesis
    unfolding Let_def shown_def[symmetric] d0_def[symmetric] dk_def[symmetric] by blast
qed

theorem ai_history_records_displayed_text_witness:
  "rows ''aiHistory'' game_page = [] \<and>
   rows ''aiHistory''
     (fst (projr (submitAiFeedback feedback_ok_reply
        (fst (reveal_ticks 2 (Some \<lparr>rv_digits = ''5678'', rv_i = 0\<rparr>)
               (fst (displayAiGuess ''5678'' game_page))))))) =
     [HistoryRow ''5 6 _ _'' ''1'' ''1'']"
proof -
  have h1: "elems game_page ''aiHistory'' \<noteq> None" by (simp add: game_page_def)
  have h2: "elems game_page ''aiGuessDisplay'' \<noteq> None" by (simp add: game_page_def)
  have h3: "elems game_page ''aiBulls'' = Some (blank\<lparr>el_value := ''1''\<rparr>)"
    by (simp add: game_page_def)
  have h4: "elems game_page ''aiCows'' = Some (blank\<lparr>el_value := ''1''\<rparr>)"
    by (simp add: game_page_def)
  have p1: "parseInt ''1'' = Num 1"
    by (simp add: parseInt_def is_space_def is_digit_def digits_val_def digit_val_def Let_def)
  have h5: "\<not> js_gt (js_add (parseInt (el_value (blank\<lparr>el_value := ''1''\<rparr>)))
                            (parseInt (el_value (blank\<lparr>el_value := ''1''\<rparr>)))) (Num 4)"
    by (simp add: p1 js_gt_def js_add_def)
  have h6: "length ''5678'' = 4" by simp
  have h7: "\<forall>ch \<in> set ''5678''. is_digit ch" by (simp add: is_digit_def)
  have h8: "(2::nat) < 4" by simp
  have h9: "fr_success feedback_ok_data" by (simp add: feedback_ok_data_def)
  have z: "rows ''aiHistory'' game_page = []" by code_simp
  have j: "join_space (take 2 ''5678'' @ replicate (4 - 2) CHR ''_'') = ''5 6 _ _''"
    by code_simp
  have s: "show_num (Num 1) = ''1''" by code_simp
  note t = ai_history_records_displayed_text [OF h1 h2 h3 h4 h5 h6 h7 h8 h9,
      folded feedback_ok_reply_def, unfolded Let_def]
  note r = t [THEN conjunct2, THEN conjunct2, THEN conjunct2, unfolded j z]
  have v: "el_value (blank\<lparr>el_value := ''1''\<rparr>) = ''1''" by simp
  from r [unfolded v p1 s] z show ?thesis by simp
qed

section \<open>Confetti\<close>

lemma cf_step_stopped: "stopped c \<Longrightarrow> cf_step e c = c"
  by (cases e) (simp_all add: stopped_def cf_step_def)

lemma cf_run_stopped: "stopped c \<Longrightarrow> cf_run es c = c"
  by (induction es) (simp_all add: cf_run_def cf_step_stopped)

lemma loop_keeps: "cf_timer (loop c) = cf_timer c" "cf_done (loop c) = cf_done c"
  "length (cf_particles (loop c)) = length (cf_particles c)"
  by (simp_all add: loop_def Let_def)

lemma cf_step_inv:
  "(cf_timer c \<and> \<not> cf_done c) \<or> stopped c \<Longrightarrow>
   (cf_timer (cf_step e c) \<and> \<not> cf_done (cf_step e c)) \<or> stopped (cf_step e c)"
  by (cases e) (auto simp: cf_step_def loop_keeps stopped_def)

lemma cf_run_inv:
  "(cf_timer c \<and> \<not> cf_done c) \<or> stopped c \<Longrightarrow>
   (cf_timer (cf_run es c) \<and> \<not> cf_done (cf_run es c)) \<or> stopped (cf_run es c)"
proof (induction es arbitrary: c)
  case Nil
  then show ?case by (simp add: cf_run_def)
next
  case (Cons e es)
  from Cons.IH[OF cf_step_inv[OF Cons.prems, of e]] show ?case by (simp add: cf_run_def)
qed

lemma cf_run_append: "cf_run (es @ es') c = cf_run es' (cf_run es c)"
  by (simp add: cf_run_def)

lemma timer_stops: "(cf_timer c \<and> \<not> cf_done c) \<or> stopped c \<Longrightarrow> stopped (cf_step TimerDue c)"
  by (auto simp: cf_step_def stopped_def)


lemma loop_hd:
  assumes "cf_particles c \<noteq> []" and "alive (cf_height c) (hd (cf_particles c))"
    and "\<not> cf_done c"
  shows "cf_frame (loop c)" and "hd (cf_particles (loop c)) = move (hd (cf_particles c))"
    and "cf_drawn (loop c) \<noteq> []"
proof -
  have "hd (cf_particles c) \<in> set (cf_particles c)" using assms(1) by simp
  with assms(2) have ne: "filter (alive (cf_height c)) (cf_particles c) \<noteq> []"
    by (auto simp: filter_empty_conv)
  then show "cf_frame (loop c)" using assms(3) by (simp add: loop_def Let_def)
  show "hd (cf_particles (loop c)) = move (hd (cf_particles c))"
    using assms(1,2) by (simp add: loop_def Let_def hd_map)
  show "cf_drawn (loop c) \<noteq> []" using ne by (simp add: loop_def Let_def)
qed

lemma loop_same: "cf_height (loop c) = cf_height c" "(cf_particles (loop c) = []) = (cf_particles c = [])"
  by (simp_all add: loop_def Let_def)

lemma sample_confetti_eq:
  "sample_confetti =
     (loop \<lparr>cf_width = 800, cf_height = 600,
            cf_particles = map (new_particle (\<lambda>_. 1 / 2) 800) [0..<140],
            cf_drawn = [], cf_frame = False, cf_done = False, cf_timer = False,
            cf_requests = 0\<rparr>)\<lparr>cf_timer := True\<rparr>"
  by (simp add: sample_confetti_def launchConfetti_def game_page_def Let_def)

lemma p0: "new_particle (\<lambda>_. 1 / 2) 800 0 =
   \<lparr>p_x = 400, p_y = - 120, p_w = 10, p_h = 11, p_color = ''#39ff88'', p_vx = 0, p_vy = 4,
    p_angle = Math_PI, p_spin = 0, p_opacity = 19 / 20\<rparr>"
  by (simp add: new_particle_def COLORS_def Let_def)

lemma hd_sample:
  "hd (cf_particles sample_confetti) = move (new_particle (\<lambda>_. 1 / 2) 800 0)"
  "cf_frame sample_confetti" "cf_height sample_confetti = 600" "\<not> cf_done sample_confetti"
  "cf_particles sample_confetti \<noteq> []"
proof -
  let ?c0 = "\<lparr>cf_width = 800, cf_height = 600,
            cf_particles = map (new_particle (\<lambda>_. 1 / 2) 800) [0..<140],
            cf_drawn = [], cf_frame = False, cf_done = False, cf_timer = False,
            cf_requests = 0\<rparr>"
  have ne: "cf_particles ?c0 \<noteq> []" by simp
  have h: "hd (cf_particles ?c0) = new_particle (\<lambda>_. 1 / 2) 800 0"
    by (simp add: hd_map)
  have al: "alive (cf_height ?c0) (hd (cf_particles ?c0))"
    unfolding h p0 by (simp add: alive_def)
  have nd: "\<not> cf_done ?c0" by simp
  note L = loop_hd[OF ne al nd]
  show "hd (cf_particles sample_confetti) = move (new_particle (\<lambda>_. 1 / 2) 800 0)"
    unfolding sample_confetti_eq using L(2) h by simp
  show "cf_frame sample_confetti" unfolding sample_confetti_eq using L(1) by simp
  show "cf_height sample_confetti = 600" unfolding sample_confetti_eq by (simp add: loop_same)
  show "\<not> cf_done sample_confetti" unfolding sample_confetti_eq by (simp add: loop_keeps)
  show "cf_particles sample_confetti \<noteq> []" unfolding sample_confetti_eq
    by (simp add: loop_same)
qed

lemma one_frame_alive:
  "alive (cf_height one_frame) (hd (cf_particles one_frame))" "cf_frame one_frame"
  "cf_drawn one_frame \<noteq> []" "p_y (hd (cf_particles one_frame)) = - 2239 / 20"
proof -
  let ?c = "sample_confetti\<lparr>cf_frame := False\<rparr>"
  have o: "one_frame = loop ?c"
    by (simp add: one_frame_def cf_run_def cf_step_def hd_sample(2))
  have ne: "cf_particles ?c \<noteq> []" using hd_sample(5) by simp
  have al: "alive (cf_height ?c) (hd (cf_particles ?c))"
    by (simp add: hd_sample p0 move_def alive_def)
  have nd: "\<not> cf_done ?c" using hd_sample(4) by simp
  note L = loop_hd[OF ne al nd]
  have y: "p_y (hd (cf_particles one_frame)) = - 2239 / 20"
    unfolding o L(2) by (simp add: hd_sample p0 move_def)
  show "p_y (hd (cf_particles one_frame)) = - 2239 / 20" by (rule y)
  show "cf_frame one_frame" unfolding o by (rule L(1))
  show "cf_drawn one_frame \<noteq> []" unfolding o by (rule L(3))
  have "cf_height one_frame = 600" unfolding o by (simp add: loop_same hd_sample)
  with y show "alive (cf_height one_frame) (hd (cf_particles one_frame))"
    by (simp add: alive_def)
qed

text \<open>
  Claim C7. A call of \<^verbatim>\<open>launchConfetti\<close> on a page that has the canvas spawns exactly
  140 particles and sets one timer of 5000 ms. Whatever frames have run before, once
  that timer has fired the surface is cleared and no frame callback is requested; and
  whatever the browser does afterwards, the surface stays cleared, no callback is
  pending and \<^verbatim>\<open>requestAnimationFrame\<close> is not called again. The state of the particles
  plays no part in this: in the sample launch a particle is still within the visible
  bound, and a frame is still requested, when the timer fires.
\<close>

theorem confetti_spawns_140_and_stops_at_timer:
  assumes "elems d ''confettiCanvas'' \<noteq> None"
  shows "map_option snd (launchConfetti rnd w h d) = Some [SetTimeout CbStopConfetti 5000] \<and>
         (let c = fst (the (launchConfetti rnd w h d));
              c1 = cf_run (before @ [TimerDue]) c;
              c2 = cf_run after c1
          in length (cf_particles c) = 140 \<and>
             cf_drawn c1 = [] \<and> \<not> cf_frame c1 \<and>
             cf_drawn c2 = [] \<and> \<not> cf_frame c2 \<and> cf_requests c2 = cf_requests c1)"
proof -
  let ?c0 = "\<lparr>cf_width = real w, cf_height = real h,
                    cf_particles = map (new_particle rnd (real w)) [0..<140],
                    cf_drawn = [], cf_frame = False, cf_done = False, cf_timer = False,
                    cf_requests = 0\<rparr>"
  let ?c = "(loop ?c0)\<lparr>cf_timer := True\<rparr>"
  have l: "launchConfetti rnd w h d = Some (?c, [SetTimeout CbStopConfetti 5000])"
    using assms by (auto simp: launchConfetti_def Let_def)
  have n: "length (cf_particles ?c) = 140" by (simp add: loop_keeps)
  have i: "(cf_timer ?c \<and> \<not> cf_done ?c) \<or> stopped ?c" by (simp add: loop_keeps)
  have s: "stopped (cf_run (before @ [TimerDue]) ?c)"
    using timer_stops[OF cf_run_inv[OF i, of before]] by (simp add: cf_run_def)
  then have "cf_drawn (cf_run (before @ [TimerDue]) ?c) = []"
    "\<not> cf_frame (cf_run (before @ [TimerDue]) ?c)"
    "cf_run after (cf_run (before @ [TimerDue]) ?c) = cf_run (before @ [TimerDue]) ?c"
    by (simp_all add: stopped_def cf_run_stopped)
  with l n show ?thesis by (simp add: Let_def)
qed

theorem confetti_spawns_140_and_stops_at_timer_witness:
  "elems game_page ''confettiCanvas'' \<noteq> None \<and>
   length (cf_particles sample_confetti) = 140 \<and>
   alive (cf_height one_frame) (hd (cf_particles one_frame)) \<and>
   cf_frame one_frame \<and> cf_drawn one_frame \<noteq> [] \<and>
   cf_drawn (cf_run ([FrameDue] @ [TimerDue]) sample_confetti) = [] \<and>
   \<not> cf_frame (cf_run ([FrameDue] @ [TimerDue]) sample_confetti) \<and>
   cf_requests (cf_run [FrameDue, FrameDue] (cf_run ([FrameDue] @ [TimerDue]) sample_confetti)) =
     cf_requests (cf_run ([FrameDue] @ [TimerDue]) sample_confetti)"
proof -
  have h: "elems game_page ''confettiCanvas'' \<noteq> None" by (simp add: game_page_def)
  note t = confetti_spawns_140_and_stops_at_timer [OF h, of "\<lambda>_. 1 / 2" 800 600
      "[FrameDue]" "[FrameDue, FrameDue]", unfolded Let_def, folded sample_confetti_def]
  from t h one_frame_alive(1,2,3) show ?thesis by blast
qed

end
